theory Spec2Isabelle
  imports Main "HOL-Library.Multiset"
begin

section \<open>Python values and string primitives\<close>

text \<open>
  The scene extractor of \<^verbatim>\<open>natural_language_processor.py\<close> works on Python strings.
  A text is modelled as a \<^typ>\<open>string\<close> whose characters are the code points below 256;
  the character classes below follow Python's Unicode tables on that range.
\<close>

datatype py_error =
    AttributeError | TypeError | IndexError | JSONDecodeError | NoJSONFound | Raised string

text \<open>
  A value as \<^verbatim>\<open>json.loads\<close> builds it. \<open>PFloat m e\<close> stands for the double
  \<open>m * 2 ^ e\<close>; the code itself only ever builds \<open>0.0\<close>.
\<close>

datatype pyval =
    PNone
  | PBool bool
  | PInt int
  | PFloat int int
  | PStr string
  | PList "pyval list"
  | PDict "(string \<times> pyval) list"

definition code :: "char \<Rightarrow> nat" where
  "code c = of_char c"

text \<open>\<^verbatim>\<open>str.isspace\<close> on one character; also the regex category \<^verbatim>\<open>\s\<close>.\<close>

definition py_isspace :: "char \<Rightarrow> bool" where
  "py_isspace c = ((9 \<le> code c \<and> code c \<le> 13) \<or> (28 \<le> code c \<and> code c \<le> 32)
     \<or> code c = 133 \<or> code c = 160)"

definition is_upper :: "char \<Rightarrow> bool" where
  "is_upper c = ((65 \<le> code c \<and> code c \<le> 90) \<or> (192 \<le> code c \<and> code c \<le> 214)
     \<or> (216 \<le> code c \<and> code c \<le> 222))"

definition is_lower :: "char \<Rightarrow> bool" where
  "is_lower c = ((97 \<le> code c \<and> code c \<le> 122) \<or> code c = 170 \<or> code c = 181
     \<or> code c = 186 \<or> (223 \<le> code c \<and> code c \<le> 246) \<or> (248 \<le> code c \<and> code c \<le> 255))"

text \<open>The regex category \<^verbatim>\<open>\w\<close>: alphanumeric or underscore.\<close>

definition is_word :: "char \<Rightarrow> bool" where
  "is_word c = ((48 \<le> code c \<and> code c \<le> 57) \<or> (65 \<le> code c \<and> code c \<le> 90)
     \<or> code c = 95 \<or> (97 \<le> code c \<and> code c \<le> 122)
     \<or> code c = 170 \<or> code c = 178 \<or> code c = 179 \<or> code c = 181 \<or> code c = 185
     \<or> code c = 186 \<or> (188 \<le> code c \<and> code c \<le> 190)
     \<or> (192 \<le> code c \<and> code c \<le> 214) \<or> (216 \<le> code c \<and> code c \<le> 246)
     \<or> (248 \<le> code c \<and> code c \<le> 255))"

definition lower_char :: "char \<Rightarrow> char" where
  "lower_char c = (if is_upper c then char_of (code c + 32) else c)"

text \<open>\<^verbatim>\<open>str.lower\<close>.\<close>

definition py_lower :: "string \<Rightarrow> string" where
  "py_lower s = map lower_char s"

text \<open>\<^verbatim>\<open>str.isupper\<close>: at least one upper-case character and no lower-case one.\<close>

definition py_isupper :: "string \<Rightarrow> bool" where
  "py_isupper s = ((\<exists>c \<in> set s. is_upper c) \<and> \<not> (\<exists>c \<in> set s. is_lower c))"

text \<open>\<^verbatim>\<open>str.strip\<close> with no argument.\<close>

definition py_strip :: "string \<Rightarrow> string" where
  "py_strip s = rev (dropWhile py_isspace (rev (dropWhile py_isspace s)))"

text \<open>
  \<^verbatim>\<open>str.split\<close> with no argument: the maximal runs of non-whitespace characters.
  \<open>split_acc w s\<close> scans \<open>s\<close> with the current word \<open>w\<close> held reversed.
\<close>

fun split_acc :: "string \<Rightarrow> string \<Rightarrow> string list" where
  "split_acc w [] = (if w = [] then [] else [rev w])"
| "split_acc w (c # cs) =
     (if py_isspace c then (if w = [] then split_acc [] cs else rev w # split_acc [] cs)
      else split_acc (c # w) cs)"

definition py_split :: "string \<Rightarrow> string list" where
  "py_split s = split_acc [] s"

text \<open>\<^verbatim>\<open>sub in s\<close> on strings.\<close>

fun py_contains :: "string \<Rightarrow> string \<Rightarrow> bool" where
  "py_contains sub [] = (sub = [])"
| "py_contains sub (c # cs) = (take (length sub) (c # cs) = sub \<or> py_contains sub cs)"

text \<open>\<^verbatim>\<open>str(n)\<close> for a non-negative integer.\<close>

definition digit_char :: "nat \<Rightarrow> char" where
  "digit_char d = char_of (48 + d)"

fun str_nat :: "nat \<Rightarrow> string" where
  "str_nat n = (if n < 10 then [digit_char n] else str_nat (n div 10) @ [digit_char (n mod 10)])"

declare str_nat.simps [simp del]

text \<open>\<^verbatim>\<open>enumerate\<close>.\<close>

definition enumerate_py :: "'a list \<Rightarrow> (nat \<times> 'a) list" where
  "enumerate_py xs = zip [0 ..< length xs] xs"

text \<open>\<^verbatim>\<open>', '.join\<close>.\<close>

fun join_comma :: "string list \<Rightarrow> string" where
  "join_comma [] = []"
| "join_comma [x] = x"
| "join_comma (x # y # ys) = x @ '', '' @ join_comma (y # ys)"

section \<open>Regular expressions\<close>

text \<open>
  The fragment of Python's \<^verbatim>\<open>re\<close> syntax that the fixed patterns of the source use,
  with \<^verbatim>\<open>re\<close>'s backtracking semantics: alternatives are tried left to right, a greedy
  star takes as much as it can before giving back, a lazy star as little as it can, and
  the first complete match found in that order is the match.
  A star ranges over a single character class, which is all the source's patterns need.
\<close>

datatype regex =
    Lit char
  | Cls "char \<Rightarrow> bool"
  | Eps
  | Seq regex regex
  | Alt regex regex
  | Star "char \<Rightarrow> bool"
  | LazyStar "char \<Rightarrow> bool"
  | Group nat regex
  | Ahead regex
  | WordB

text \<open>
  What is still to be matched: pattern pieces, pending group ends, and the demand that the
  match end beyond a given position.
\<close>

datatype frame = R regex | Close nat nat string | Advance nat

text \<open>
  A matcher state: the character before the current position, the position,
  the rest of the input, and the groups captured so far (latest first).
\<close>

datatype mstate = M "char option" nat string "(nat \<times> string) list"

fun weight :: "regex \<Rightarrow> nat" where
  "weight (Seq a b) = Suc (weight a + weight b)"
| "weight (Alt a b) = Suc (weight a + weight b)"
| "weight (Group i a) = Suc (Suc (weight a))"
| "weight (Ahead a) = Suc (weight a)"
| "weight r = 1"

fun fweight :: "frame \<Rightarrow> nat" where
  "fweight (R r) = weight r"
| "fweight (Close i n s) = 1"
| "fweight (Advance n) = 1"

definition lit_eq :: "bool \<Rightarrow> char \<Rightarrow> char \<Rightarrow> bool" where
  "lit_eq ic p c = (if ic then lower_char p = lower_char c else p = c)"

definition word_opt :: "char option \<Rightarrow> bool" where
  "word_opt x = (case x of None \<Rightarrow> False | Some c \<Rightarrow> is_word c)"

definition next_char :: "string \<Rightarrow> char option" where
  "next_char s = (case s of [] \<Rightarrow> None | c # cs \<Rightarrow> Some c)"

text \<open>
  \<open>run ic k st\<close> matches the pieces \<open>k\<close> in sequence from state \<open>st\<close>;
  \<open>ic\<close> is the flag \<^verbatim>\<open>re.IGNORECASE\<close>.
\<close>

function run :: "bool \<Rightarrow> frame list \<Rightarrow> mstate \<Rightarrow> mstate option" where
  "run ic [] st = Some st"
| "run ic (R (Lit p) # k) (M pc n [] gs) = None"
| "run ic (R (Lit p) # k) (M pc n (c # cs) gs) =
     (if lit_eq ic p c then run ic k (M (Some c) (Suc n) cs gs) else None)"
| "run ic (R (Cls P) # k) (M pc n [] gs) = None"
| "run ic (R (Cls P) # k) (M pc n (c # cs) gs) =
     (if P c then run ic k (M (Some c) (Suc n) cs gs) else None)"
| "run ic (R Eps # k) st = run ic k st"
| "run ic (R (Seq a b) # k) st = run ic (R a # R b # k) st"
| "run ic (R (Alt a b) # k) st =
     (case run ic (R a # k) st of Some r \<Rightarrow> Some r | None \<Rightarrow> run ic (R b # k) st)"
| "run ic (R (Star P) # k) (M pc n [] gs) = run ic k (M pc n [] gs)"
| "run ic (R (Star P) # k) (M pc n (c # cs) gs) =
     (if P c
      then (case run ic (R (Star P) # k) (M (Some c) (Suc n) cs gs) of
              Some r \<Rightarrow> Some r
            | None \<Rightarrow> run ic k (M pc n (c # cs) gs))
      else run ic k (M pc n (c # cs) gs))"
| "run ic (R (LazyStar P) # k) (M pc n [] gs) = run ic k (M pc n [] gs)"
| "run ic (R (LazyStar P) # k) (M pc n (c # cs) gs) =
     (case run ic k (M pc n (c # cs) gs) of
        Some r \<Rightarrow> Some r
      | None \<Rightarrow> (if P c then run ic (R (LazyStar P) # k) (M (Some c) (Suc n) cs gs) else None))"
| "run ic (R (Group i a) # k) (M pc n s gs) = run ic (R a # Close i n s # k) (M pc n s gs)"
| "run ic (Close i n0 s0 # k) (M pc n s gs) = run ic k (M pc n s ((i, take (n - n0) s0) # gs))"
| "run ic (R (Ahead a) # k) (M pc n s gs) =
     (case run ic [R a] (M pc n s gs) of
        Some (M pc' n' s' gs') \<Rightarrow> run ic k (M pc n s gs')
      | None \<Rightarrow> None)"
| "run ic (R WordB # k) (M pc n s gs) =
     (if word_opt pc \<noteq> word_opt (next_char s) then run ic k (M pc n s gs) else None)"
| "run ic (Advance n0 # k) (M pc n s gs) =
     (if n0 < n then run ic k (M pc n s gs) else None)"
  by pat_completeness auto
termination
  by (relation "measures [\<lambda>(ic, k, st). (case st of M pc n s gs \<Rightarrow> length s),
                          \<lambda>(ic, k, st). sum_list (map fweight k)]") auto

text \<open>
  The scan behind \<^verbatim>\<open>re.search\<close> and \<^verbatim>\<open>re.finditer\<close>: the first match at the
  leftmost position that has one, the whole match being group 0. With \<open>adv\<close> set, a match
  that starts at the first position tried must not be empty.
\<close>

definition top_frames :: "regex \<Rightarrow> bool \<Rightarrow> nat \<Rightarrow> frame list" where
  "top_frames r adv n = R (Group 0 r) # (if adv then [Advance n] else [])"

fun search_from ::
  "bool \<Rightarrow> regex \<Rightarrow> bool \<Rightarrow> char option \<Rightarrow> nat \<Rightarrow> string \<Rightarrow> mstate option" where
  "search_from ic r adv pc n [] = run ic (top_frames r adv n) (M pc n [] [])"
| "search_from ic r adv pc n (c # cs) =
     (case run ic (top_frames r adv n) (M pc n (c # cs) []) of
        Some st \<Rightarrow> Some st
      | None \<Rightarrow> search_from ic r False (Some c) (Suc n) cs)"

type_synonym groups = "(nat \<times> string) list"

definition group :: "groups \<Rightarrow> nat \<Rightarrow> string" where
  "group gs i = (case map_of gs i of Some s \<Rightarrow> s | None \<Rightarrow> [])"

definition re_search :: "bool \<Rightarrow> regex \<Rightarrow> string \<Rightarrow> groups option" where
  "re_search ic r s =
     (case search_from ic r False None 0 s of
        None \<Rightarrow> None
      | Some (M pc n s' gs) \<Rightarrow> Some gs)"

text \<open>
  \<^verbatim>\<open>re.finditer\<close> (and \<^verbatim>\<open>re.findall\<close>): successive non-overlapping matches, each
  search starting where the previous match ended; after an empty match the next match
  may start at the same position but must not be empty there. The branch for an advancing
  search that ends where it started is never taken.
\<close>

function finditer_from ::
  "bool \<Rightarrow> regex \<Rightarrow> bool \<Rightarrow> char option \<Rightarrow> nat \<Rightarrow> string \<Rightarrow> groups list" where
  "finditer_from ic r adv pc n s =
     (case search_from ic r adv pc n s of
        None \<Rightarrow> []
      | Some (M pc' n' s' gs) \<Rightarrow>
          (if n < n' \<and> s \<noteq> []
           then gs # finditer_from ic r (group gs 0 = []) pc' n' (drop (n' - n) s)
           else if adv then [gs]
           else gs # finditer_from ic r True pc n s))"
  by pat_completeness auto
termination
proof (relation "measures [\<lambda>(ic, r, adv, pc, n, s). length s,
                           \<lambda>(ic, r, adv, pc, n, s). if adv then 0 else 1]")
  show "wf (measures [\<lambda>(ic, r, adv, pc, n, s). length s,
                      \<lambda>(ic, r, adv, pc, n, s). if adv then 0 else (1::nat)])"
    by simp
next
  fix ic :: bool and r :: regex and adv adv' :: bool and pc pc' :: "char option"
    and n n' :: nat and s :: string
  assume "n < n' \<and> s \<noteq> []"
  then have "length (drop (n' - n) s) < length s"
    by (cases s) auto
  then show "((ic, r, adv', pc', n', drop (n' - n) s), (ic, r, adv, pc, n, s))
      \<in> measures [\<lambda>(ic, r, adv, pc, n, s). length s,
                   \<lambda>(ic, r, adv, pc, n, s). if adv then 0 else 1]"
    by (simp del: length_drop)
next
  fix ic :: bool and r :: regex and adv :: bool and pc :: "char option" and n :: nat
    and s :: string
  assume "\<not> adv"
  then show "((ic, r, True, pc, n, s), (ic, r, adv, pc, n, s))
      \<in> measures [\<lambda>(ic, r, adv, pc, n, s). length s,
                   \<lambda>(ic, r, adv, pc, n, s). if adv then 0 else 1]"
    by simp
qed

declare finditer_from.simps [simp del]

definition re_finditer :: "bool \<Rightarrow> regex \<Rightarrow> string \<Rightarrow> groups list" where
  "re_finditer ic r s = finditer_from ic r False None 0 s"

text \<open>Building blocks for writing the source's patterns.\<close>

fun lit :: "string \<Rightarrow> regex" where
  "lit [] = Eps"
| "lit [c] = Lit c"
| "lit (c # cs) = Seq (Lit c) (lit cs)"

fun seqs :: "regex list \<Rightarrow> regex" where
  "seqs [] = Eps"
| "seqs [r] = r"
| "seqs (r # rs) = Seq r (seqs rs)"

fun alts :: "regex list \<Rightarrow> regex" where
  "alts [] = Eps"
| "alts [r] = r"
| "alts (r # rs) = Alt r (alts rs)"

definition plus :: "(char \<Rightarrow> bool) \<Rightarrow> regex" where
  "plus P = Seq (Cls P) (Star P)"

definition opt :: "regex \<Rightarrow> regex" where
  "opt r = Alt r Eps"

definition upper_AZ :: "char \<Rightarrow> bool" where
  "upper_AZ c = (65 \<le> code c \<and> code c \<le> 90)"

definition lower_az :: "char \<Rightarrow> bool" where
  "lower_az c = (97 \<le> code c \<and> code c \<le> 122)"

definition none_of :: "string \<Rightarrow> char \<Rightarrow> bool" where
  "none_of cs c = (c \<notin> set cs)"

definition one_of :: "string \<Rightarrow> char \<Rightarrow> bool" where
  "one_of cs c = (c \<in> set cs)"

definition any_char :: "char \<Rightarrow> bool" where
  "any_char c = True"


definition dquote :: char where
  "dquote = CHR 0x22"

definition newline :: char where
  "newline = CHR 0x0A"

definition backslash :: char where
  "backslash = CHR 0x5C"

section \<open>Scene schema\<close>

text \<open>
  The three dataclasses. Python does not check the declared field types, and the remote
  tier stores whatever the reply holds, so a field is a \<^typ>\<open>pyval\<close>.
  \<open>char_description\<close> and \<open>char_actions\<close> are the fields \<^verbatim>\<open>description\<close> and
  \<^verbatim>\<open>actions\<close> of \<^verbatim>\<open>Character\<close>.
\<close>

record Character =
  name :: pyval
  char_description :: pyval
  voice_characteristics :: pyval
  emotions :: pyval
  char_actions :: pyval

record DialogueLine =
  character :: pyval
  "text" :: pyval
  emotion :: pyval
  action :: pyval
  timing :: pyval
  non_verbal :: pyval

record ParsedScene =
  description :: pyval
  characters :: "Character list"
  dialogue :: "DialogueLine list"
  actions :: pyval
  environment :: pyval
  mood :: pyval
  duration_estimate :: pyval

section \<open>The processor's resources\<close>

text \<open>
  What a \<^verbatim>\<open>NaturalLanguageProcessor\<close> holds or reaches outside the source file:
  \<^item> \<open>client\<close>: the completion service, absent without an API key; given the user message
    it raises or returns \<^verbatim>\<open>response.choices[0].message.content\<close> (a string or None);
  \<^item> \<open>json_loads\<close>: \<^verbatim>\<open>json.loads\<close>;
  \<^item> \<open>ner_pipeline\<close>: the loaded NER model, absent when loading failed; it raises or returns
    the entities as pairs of \<^verbatim>\<open>word\<close> and \<^verbatim>\<open>entity_group\<close>;
  \<^item> \<open>set_order\<close>: the order in which \<^verbatim>\<open>list(set(xs))\<close> enumerates, fixed by the
    process's string hashing;
  \<^item> \<open>re_dynamic\<close>: \<^verbatim>\<open>re\<close> on a pattern assembled at run time around a name that holds
    regex metacharacters: it raises (\<^verbatim>\<open>re.error\<close>) or returns, for each match of
    \<^verbatim>\<open>finditer\<close> with \<^verbatim>\<open>IGNORECASE\<close>, the groups 0, 1, ... (None for a group that
    took no part).
\<close>

record nlp_env =
  client :: "(string \<Rightarrow> py_error + string option) option"
  json_loads :: "string \<Rightarrow> py_error + pyval"
  ner_pipeline :: "(string \<Rightarrow> py_error + (string \<times> string) list) option"
  set_order :: "string list \<Rightarrow> string list"
  re_dynamic :: "string \<Rightarrow> string \<Rightarrow> py_error + (string option list) list"

fun map_err :: "('a \<Rightarrow> py_error + 'b) \<Rightarrow> 'a list \<Rightarrow> py_error + 'b list" where
  "map_err f [] = Inr []"
| "map_err f (x # xs) =
     (case f x of
        Inl e \<Rightarrow> Inl e
      | Inr y \<Rightarrow> (case map_err f xs of Inl e \<Rightarrow> Inl e | Inr ys \<Rightarrow> Inr (y # ys)))"

section \<open>Local linguistic extractor\<close>

subsection \<open>Per-line helpers\<close>

definition extract_emotion_from_dialogue :: "string \<Rightarrow> string" where
  "extract_emotion_from_dialogue dialogue_text =
     (if py_contains ''!'' dialogue_text then ''excited''
      else if py_contains ''?'' dialogue_text then ''questioning''
      else if py_contains ''...'' dialogue_text then ''hesitant''
      else if py_isupper dialogue_text then ''angry''
      else ''neutral'')"

text \<open>\<^verbatim>\<open>\[([^\]]+)\]\<close> and \<^verbatim>\<open>\(([^\)]+)\)\<close>.\<close>

definition non_verbal_patterns :: "regex list" where
  "non_verbal_patterns =
     [seqs [Lit (CHR ''[''), Group 1 (plus (none_of '']'')), Lit (CHR '']'')],
      seqs [Lit (CHR ''(''), Group 1 (plus (none_of '')'')), Lit (CHR '')'')]]"

definition extract_non_verbal_cues :: "string \<Rightarrow> string list" where
  "extract_non_verbal_cues txt =
     concat (map (\<lambda>pattern. map (\<lambda>m. py_lower (group m 1)) (re_finditer False pattern txt))
       non_verbal_patterns)"

subsection \<open>Dialogue\<close>

text \<open>\<^verbatim>\<open>([A-Z][a-z]+)\s*:\s*"([^"]+)"\<close>\<close>

definition pattern1 :: regex where
  "pattern1 = seqs [Group 1 (Seq (Cls upper_AZ) (plus lower_az)), Star py_isspace,
      Lit (CHR '':''), Star py_isspace, Lit dquote, Group 2 (plus (none_of [dquote])),
      Lit dquote]"

text \<open>\<^verbatim>\<open>"([^"]+)"\s+(?:said|says|asks|replies|responds)\s+([A-Z][a-z]+)\<close>\<close>

definition pattern2 :: regex where
  "pattern2 = seqs [Lit dquote, Group 1 (plus (none_of [dquote])), Lit dquote,
      plus py_isspace,
      alts [lit ''said'', lit ''says'', lit ''asks'', lit ''replies'', lit ''responds''],
      plus py_isspace, Group 2 (Seq (Cls upper_AZ) (plus lower_az))]"

text \<open>\<^verbatim>\<open>"([^"]+)"\<close>\<close>

definition pattern3 :: regex where
  "pattern3 = seqs [Lit dquote, Group 1 (plus (none_of [dquote])), Lit dquote]"

text \<open>
  The \<^verbatim>\<open>DialogueLine\<close> the local tier builds for a speaker and a quote; \<^verbatim>\<open>action\<close>
  and \<^verbatim>\<open>timing\<close> keep the dataclass defaults.
\<close>

definition local_line :: "string \<Rightarrow> string \<Rightarrow> DialogueLine" where
  "local_line speaker dialogue_text =
     \<lparr>character = PStr speaker, text = PStr dialogue_text,
      emotion = PStr (extract_emotion_from_dialogue dialogue_text),
      action = PStr [], timing = PFloat 0 0,
      non_verbal = PList (map PStr (extract_non_verbal_cues dialogue_text))\<rparr>"

definition lines1 :: "string \<Rightarrow> DialogueLine list" where
  "lines1 txt = map (\<lambda>m. local_line (group m 1) (group m 2)) (re_finditer False pattern1 txt)"

definition lines2 :: "string \<Rightarrow> DialogueLine list" where
  "lines2 txt = map (\<lambda>m. local_line (group m 2) (group m 1)) (re_finditer False pattern2 txt)"

definition lines3 :: "string \<Rightarrow> DialogueLine list" where
  "lines3 txt =
     map (\<lambda>(i, m). local_line (''Character'' @ str_nat (i + 1)) (group m 1))
       (enumerate_py (re_finditer False pattern3 txt))"

text \<open>
  The loop over pattern 1 and the loop over pattern 2 both append to \<open>dialogue_lines\<close>;
  only pattern 3 is guarded by \<^verbatim>\<open>if not dialogue_lines\<close>.
\<close>

definition extract_dialogue :: "string \<Rightarrow> DialogueLine list" where
  "extract_dialogue txt =
     (let dialogue_lines = [] @ lines1 txt;
          dialogue_lines = dialogue_lines @ lines2 txt
      in if dialogue_lines = [] then lines3 txt else dialogue_lines)"

subsection \<open>Characters\<close>

text \<open>A name with no regex metacharacter stands for itself inside a pattern.\<close>

definition re_plain :: "string \<Rightarrow> bool" where
  "re_plain s = (\<forall>c \<in> set s. c \<notin> set (backslash # ''.^$*+?{}[]|()''))"

definition not_dot :: "char \<Rightarrow> bool" where
  "not_dot c = (c \<noteq> CHR ''.'')"

definition description_words :: "string list" where
  "description_words =
     [''tall'', ''short'', ''young'', ''old'', ''beautiful'', ''handsome'', ''wearing'', ''dressed'']"

text \<open>
  \<^verbatim>\<open>rf'{character_name}[^.]*?([^.]*(?:tall|short|young|old|beautiful|handsome|wearing|dressed)[^.]*)'\<close>
\<close>

definition description_pattern :: "string \<Rightarrow> regex" where
  "description_pattern character_name =
     seqs [lit character_name, LazyStar not_dot,
       Group 1 (seqs [Star not_dot, alts (map lit description_words), Star not_dot])]"

definition description_source :: "string \<Rightarrow> string" where
  "description_source character_name = character_name @
     ''[^.]*?([^.]*(?:tall|short|young|old|beautiful|handsome|wearing|dressed)[^.]*)''"

definition extract_character_description :: "nlp_env \<Rightarrow> string \<Rightarrow> string \<Rightarrow> py_error + string" where
  "extract_character_description env txt character_name =
     (if re_plain character_name
      then (case re_search True (description_pattern character_name) txt of
              Some m \<Rightarrow> Inr (py_strip (group m 1))
            | None \<Rightarrow> Inr [])
      else (case re_dynamic env (description_source character_name) txt of
              Inl e \<Rightarrow> Inl e
            | Inr [] \<Rightarrow> Inr []
            | Inr (m # ms) \<Rightarrow>
                (if length m \<le> 1 then Inl IndexError
                 else (case m ! 1 of None \<Rightarrow> Inl AttributeError | Some g \<Rightarrow> Inr (py_strip g)))))"

definition emotion_words :: "string list" where
  "emotion_words = [''happy'', ''sad'', ''angry'', ''excited'', ''nervous'', ''calm'', ''worried'',
     ''surprised'', ''confused'']"

text \<open>\<^verbatim>\<open>rf'{character_name}[^.]*?{emotion}|{emotion}[^.]*?{character_name}'\<close>\<close>

definition emotion_pattern :: "string \<Rightarrow> string \<Rightarrow> regex" where
  "emotion_pattern character_name emo =
     Alt (seqs [lit character_name, LazyStar not_dot, lit emo])
         (seqs [lit emo, LazyStar not_dot, lit character_name])"

definition emotion_source :: "string \<Rightarrow> string \<Rightarrow> string" where
  "emotion_source character_name emo =
     character_name @ ''[^.]*?'' @ emo @ ''|'' @ emo @ ''[^.]*?'' @ character_name"

definition emotion_found :: "nlp_env \<Rightarrow> string \<Rightarrow> string \<Rightarrow> string \<Rightarrow> py_error + bool" where
  "emotion_found env txt character_name emo =
     (if re_plain character_name
      then Inr (re_search True (emotion_pattern character_name emo) txt \<noteq> None)
      else (case re_dynamic env (emotion_source character_name emo) txt of
              Inl e \<Rightarrow> Inl e
            | Inr ms \<Rightarrow> Inr (ms \<noteq> [])))"

definition extract_character_emotions :: "nlp_env \<Rightarrow> string \<Rightarrow> string \<Rightarrow> py_error + string list" where
  "extract_character_emotions env txt character_name =
     (case map_err (emotion_found env txt character_name) emotion_words of
        Inl e \<Rightarrow> Inl e
      | Inr found \<Rightarrow> Inr (map fst (filter snd (zip emotion_words found))))"

definition action_verbs :: "string list" where
  "action_verbs = [''walks'', ''runs'', ''sits'', ''stands'', ''looks'', ''turns'', ''moves'',
     ''enters'', ''exits'', ''grabs'', ''holds'']"

text \<open>
  \<^verbatim>\<open>rf'{character_name}\s+(walks|runs|sits|stands|looks|turns|moves|enters|exits|grabs|holds)'\<close>
\<close>

definition action_pattern :: "string \<Rightarrow> regex" where
  "action_pattern character_name =
     seqs [lit character_name, plus py_isspace, Group 1 (alts (map lit action_verbs))]"

definition action_source :: "string \<Rightarrow> string" where
  "action_source character_name = character_name @ [backslash] @
     ''s+(walks|runs|sits|stands|looks|turns|moves|enters|exits|grabs|holds)''"

definition group_value :: "string option list \<Rightarrow> py_error + pyval" where
  "group_value m =
     (if length m \<le> 1 then Inl IndexError
      else Inr (case m ! 1 of None \<Rightarrow> PNone | Some g \<Rightarrow> PStr g))"

definition extract_character_actions :: "nlp_env \<Rightarrow> string \<Rightarrow> string \<Rightarrow> py_error + pyval list" where
  "extract_character_actions env txt character_name =
     (if re_plain character_name
      then Inr (map (\<lambda>m. PStr (group m 1)) (re_finditer True (action_pattern character_name) txt))
      else (case re_dynamic env (action_source character_name) txt of
              Inl e \<Rightarrow> Inl e
            | Inr ms \<Rightarrow> map_err group_value ms))"

text \<open>\<^verbatim>\<open>\b([A-Z][a-z]+)(?=\s*[:""])\<close>\<close>

definition name_pattern :: regex where
  "name_pattern = seqs [WordB, Group 1 (Seq (Cls upper_AZ) (plus lower_az)),
      Ahead (Seq (Star py_isspace) (Cls (one_of [CHR '':'', dquote, dquote])))]"

text \<open>The names as detected, before deduplication: by the NER model, else by the regex.\<close>

definition detect_names :: "nlp_env \<Rightarrow> string \<Rightarrow> py_error + string list" where
  "detect_names env txt =
     (case ner_pipeline env of
        Some ner \<Rightarrow>
          (case ner txt of
             Inl e \<Rightarrow> Inl e
           | Inr entities \<Rightarrow> Inr (map fst (filter (\<lambda>ent. snd ent = ''PER'') entities)))
      | None \<Rightarrow> Inr (map (\<lambda>m. group m 1) (re_finditer False name_pattern txt)))"

definition false_positives :: "string list" where
  "false_positives = [''the'', ''and'', ''but'', ''or'']"

definition build_character :: "nlp_env \<Rightarrow> string \<Rightarrow> string \<Rightarrow> py_error + Character" where
  "build_character env txt nm =
     (case extract_character_description env txt nm of
        Inl e \<Rightarrow> Inl e
      | Inr d \<Rightarrow>
     (case extract_character_emotions env txt nm of
        Inl e \<Rightarrow> Inl e
      | Inr es \<Rightarrow>
     (case extract_character_actions env txt nm of
        Inl e \<Rightarrow> Inl e
      | Inr acts \<Rightarrow>
          Inr \<lparr>name = PStr nm, char_description = PStr d, voice_characteristics = PStr [],
               emotions = PList (map PStr es), char_actions = PList acts\<rparr>)))"

definition extract_characters :: "nlp_env \<Rightarrow> string \<Rightarrow> py_error + Character list" where
  "extract_characters env txt =
     (case detect_names env txt of
        Inl e \<Rightarrow> Inl e
      | Inr person_names \<Rightarrow>
          (let person_names = set_order env person_names;
               person_names = filter (\<lambda>nm. py_lower nm \<notin> set false_positives) person_names
           in map_err (build_character env txt) person_names))"

subsection \<open>Scene-wide actions\<close>

text \<open>
  \<^verbatim>\<open>walks? (?:to|into|towards)[^.]*\<close> and its seven siblings, each one group, matched
  with \<^verbatim>\<open>IGNORECASE\<close>.
\<close>

definition verb_phrase :: "string \<Rightarrow> string list \<Rightarrow> regex" where
  "verb_phrase verb qualifiers =
     Group 1 (seqs [lit verb, opt (Lit (CHR ''s'')), Lit (CHR '' ''),
       alts (map lit qualifiers), Star not_dot])"

definition action_patterns :: "regex list" where
  "action_patterns =
     [verb_phrase ''walk'' [''to'', ''into'', ''towards''],
      verb_phrase ''run'' [''to'', ''into'', ''towards''],
      Group 1 (seqs [lit ''enter'', opt (Lit (CHR ''s'')), Lit (CHR '' ''), Star not_dot]),
      Group 1 (seqs [lit ''exit'', opt (Lit (CHR ''s'')), Lit (CHR '' ''), Star not_dot]),
      verb_phrase ''sit'' [''down'', ''on''],
      verb_phrase ''stand'' [''up'', ''on''],
      verb_phrase ''look'' [''at'', ''towards''],
      verb_phrase ''turn'' [''to'', ''towards'']]"

definition extract_actions :: "string \<Rightarrow> string list" where
  "extract_actions txt =
     concat (map (\<lambda>pattern. map (\<lambda>m. group m 1) (re_finditer True pattern txt)) action_patterns)"

subsection \<open>Environment\<close>

definition place_nouns :: "string list" where
  "place_nouns = [''room'', ''house'', ''park'', ''street'', ''office'', ''restaurant'', ''cafe'',
     ''bar'', ''store'', ''school'', ''hospital'', ''church'', ''beach'', ''forest'', ''mountain'',
     ''city'', ''town'', ''village'']"

text \<open>
  \<^verbatim>\<open>(?:in|at|inside|outside)\s+(?:a|an|the)?\s*([^.]*(?:room|house|...|village)[^.]*)\<close>,
  \<^verbatim>\<open>(?:INT\.|EXT\.)\s*([^-\n]*)\<close> and \<^verbatim>\<open>(?:setting|location|place):\s*([^\n]*)\<close>.
\<close>

definition location_patterns :: "regex list" where
  "location_patterns =
     [seqs [alts [lit ''in'', lit ''at'', lit ''inside'', lit ''outside''], plus py_isspace,
            opt (alts [lit ''a'', lit ''an'', lit ''the'']), Star py_isspace,
            Group 1 (seqs [Star not_dot, alts (map lit place_nouns), Star not_dot])],
      seqs [alts [lit ''INT.'', lit ''EXT.''], Star py_isspace,
            Group 1 (Star (none_of [CHR ''-'', newline]))],
      seqs [alts [lit ''setting'', lit ''location'', lit ''place''], Lit (CHR '':''),
            Star py_isspace, Group 1 (Star (none_of [newline]))]]"

definition env_words :: "string list" where
  "env_words = [''indoor'', ''outdoor'', ''sunny'', ''dark'', ''bright'', ''cozy'', ''spacious'',
     ''crowded'', ''quiet'', ''noisy'']"

text \<open>The loop over \<open>location_patterns\<close>: the first pattern that matches decides.\<close>

fun first_location :: "regex list \<Rightarrow> string \<Rightarrow> string option" where
  "first_location [] txt = None"
| "first_location (pattern # rest) txt =
     (case re_search True pattern txt of
        Some m \<Rightarrow> Some (py_strip (group m 1))
      | None \<Rightarrow> first_location rest txt)"

definition extract_environment :: "string \<Rightarrow> string" where
  "extract_environment txt =
     (case first_location location_patterns txt of
        Some loc \<Rightarrow> loc
      | None \<Rightarrow>
          (let found_env = filter (\<lambda>word. py_contains word (py_lower txt)) env_words
           in if found_env \<noteq> [] then join_comma found_env else ''unspecified location''))"

subsection \<open>Mood\<close>

definition mood_indicators :: "(string \<times> string list) list" where
  "mood_indicators =
     [(''happy'', [''happy'', ''joyful'', ''cheerful'', ''upbeat'', ''positive'', ''bright'']),
      (''sad'', [''sad'', ''melancholy'', ''depressing'', ''gloomy'', ''somber'']),
      (''tense'', [''tense'', ''suspenseful'', ''dramatic'', ''intense'', ''serious'']),
      (''romantic'', [''romantic'', ''intimate'', ''loving'', ''tender'', ''sweet'']),
      (''comedic'', [''funny'', ''humorous'', ''comedic'', ''amusing'', ''lighthearted'']),
      (''mysterious'', [''mysterious'', ''enigmatic'', ''puzzling'', ''strange'', ''eerie''])]"

fun first_mood :: "(string \<times> string list) list \<Rightarrow> string \<Rightarrow> string" where
  "first_mood [] text_lower = ''neutral''"
| "first_mood ((mood_name, indicators) # rest) text_lower =
     (if list_ex (\<lambda>indicator. py_contains indicator text_lower) indicators then mood_name
      else first_mood rest text_lower)"

definition extract_mood :: "string \<Rightarrow> string" where
  "extract_mood txt = first_mood mood_indicators (py_lower txt)"

subsection \<open>Duration\<close>

definition estimate_duration :: "string \<Rightarrow> DialogueLine list \<Rightarrow> int" where
  "estimate_duration txt dialogue_lines =
     (let word_count = int (length (py_split txt));
          dialogue_count = int (length dialogue_lines);
          base_duration = max 5 (word_count div 20);
          dialogue_duration = dialogue_count * 3
      in min 30 (max base_duration dialogue_duration))"

subsection \<open>The local tier\<close>

definition process_with_local_nlp :: "nlp_env \<Rightarrow> string \<Rightarrow> py_error + ParsedScene" where
  "process_with_local_nlp env prompt =
     (case extract_characters env prompt of
        Inl e \<Rightarrow> Inl e
      | Inr chars \<Rightarrow>
          (let dialogue_lines = extract_dialogue prompt
           in Inr \<lparr>description =
                     PStr (if length prompt > 200 then take 200 prompt @ ''...'' else prompt),
                   characters = chars,
                   dialogue = dialogue_lines,
                   actions = PList (map PStr (extract_actions prompt)),
                   environment = PStr (extract_environment prompt),
                   mood = PStr (extract_mood prompt),
                   duration_estimate = PInt (estimate_duration prompt dialogue_lines)\<rparr>))"

section \<open>Remote semantic parser\<close>

text \<open>\<^verbatim>\<open>d.get(key, default)\<close>: only a dict has the method.\<close>

fun dict_get :: "pyval \<Rightarrow> string \<Rightarrow> pyval \<Rightarrow> py_error + pyval" where
  "dict_get (PDict kvs) k d = Inr (case map_of kvs k of Some v \<Rightarrow> v | None \<Rightarrow> d)"
| "dict_get v k d = Inl AttributeError"

text \<open>The dict after \<^verbatim>\<open>d[key] = v\<close>, as an association list with one entry per key.\<close>

definition dict_set :: "(string \<times> pyval) list \<Rightarrow> string \<Rightarrow> pyval \<Rightarrow> (string \<times> pyval) list" where
  "dict_set kvs k v = (k, v) # filter (\<lambda>kv. fst kv \<noteq> k) kvs"

text \<open>What a \<^verbatim>\<open>for\<close> loop over a value runs through.\<close>

fun py_iter :: "pyval \<Rightarrow> py_error + pyval list" where
  "py_iter (PList xs) = Inr xs"
| "py_iter (PStr s) = Inr (map (\<lambda>c. PStr [c]) s)"
| "py_iter (PDict kvs) = Inr (map (\<lambda>kv. PStr (fst kv)) kvs)"
| "py_iter v = Inl TypeError"

definition character_of_data :: "pyval \<Rightarrow> py_error + Character" where
  "character_of_data char_data =
     (case dict_get char_data ''name'' (PStr []) of Inl e \<Rightarrow> Inl e | Inr n \<Rightarrow>
     (case dict_get char_data ''description'' (PStr []) of Inl e \<Rightarrow> Inl e | Inr d \<Rightarrow>
     (case dict_get char_data ''voice_characteristics'' (PStr []) of Inl e \<Rightarrow> Inl e | Inr v \<Rightarrow>
     (case dict_get char_data ''emotions'' (PList []) of Inl e \<Rightarrow> Inl e | Inr es \<Rightarrow>
     (case dict_get char_data ''actions'' (PList []) of Inl e \<Rightarrow> Inl e | Inr acts \<Rightarrow>
        Inr \<lparr>name = n, char_description = d, voice_characteristics = v, emotions = es,
             char_actions = acts\<rparr>)))))"

definition line_of_data :: "pyval \<Rightarrow> py_error + DialogueLine" where
  "line_of_data dial_data =
     (case dict_get dial_data ''character'' (PStr []) of Inl e \<Rightarrow> Inl e | Inr c \<Rightarrow>
     (case dict_get dial_data ''text'' (PStr []) of Inl e \<Rightarrow> Inl e | Inr t \<Rightarrow>
     (case dict_get dial_data ''emotion'' (PStr ''neutral'') of Inl e \<Rightarrow> Inl e | Inr em \<Rightarrow>
     (case dict_get dial_data ''action'' (PStr []) of Inl e \<Rightarrow> Inl e | Inr a \<Rightarrow>
     (case dict_get dial_data ''timing'' (PFloat 0 0) of Inl e \<Rightarrow> Inl e | Inr ti \<Rightarrow>
     (case dict_get dial_data ''non_verbal'' (PList []) of Inl e \<Rightarrow> Inl e | Inr nv \<Rightarrow>
        Inr \<lparr>character = c, text = t, emotion = em, action = a, timing = ti,
             non_verbal = nv\<rparr>))))))"

text \<open>The loop \<^verbatim>\<open>for item in data.get(key, [])\<close> building one record per item.\<close>

definition convert_items :: "pyval \<Rightarrow> string \<Rightarrow> (pyval \<Rightarrow> py_error + 'a) \<Rightarrow> py_error + 'a list" where
  "convert_items data key build =
     (case dict_get data key (PList []) of
        Inl e \<Rightarrow> Inl e
      | Inr v \<Rightarrow> (case py_iter v of Inl e \<Rightarrow> Inl e | Inr items \<Rightarrow> map_err build items))"

definition field_or :: "pyval \<Rightarrow> string \<Rightarrow> pyval \<Rightarrow> pyval" where
  "field_or data key d = (case dict_get data key d of Inr v \<Rightarrow> v | Inl e \<Rightarrow> d)"

definition convert_to_parsed_scene :: "pyval \<Rightarrow> py_error + ParsedScene" where
  "convert_to_parsed_scene data =
     (case convert_items data ''characters'' character_of_data of
        Inl e \<Rightarrow> Inl e
      | Inr chars \<Rightarrow>
     (case convert_items data ''dialogue'' line_of_data of
        Inl e \<Rightarrow> Inl e
      | Inr dialogue_lines \<Rightarrow>
          Inr \<lparr>description = field_or data ''description'' (PStr []),
               characters = chars,
               dialogue = dialogue_lines,
               actions = field_or data ''actions'' (PList []),
               environment = field_or data ''environment'' (PStr []),
               mood = field_or data ''mood'' (PStr ''neutral''),
               duration_estimate = field_or data ''duration_estimate'' (PInt 10)\<rparr>))"

text \<open>\<^verbatim>\<open>\{.*\}\<close> with \<^verbatim>\<open>re.DOTALL\<close>.\<close>

definition json_pattern :: regex where
  "json_pattern = seqs [Lit (CHR ''{''), Star any_char, Lit (CHR ''}'')]"

definition user_message :: "string \<Rightarrow> string" where
  "user_message prompt = ''Parse this scene description:'' @ [newline, newline] @ prompt"

text \<open>
  The body of the \<^verbatim>\<open>try\<close> block of \<^verbatim>\<open>_process_with_deepseek\<close>: the call, the direct
  parse, and the salvage of the first brace to the last on a \<^verbatim>\<open>JSONDecodeError\<close>.
\<close>

definition remote_attempt ::
  "nlp_env \<Rightarrow> (string \<Rightarrow> py_error + string option) \<Rightarrow> string \<Rightarrow> py_error + ParsedScene" where
  "remote_attempt env cl prompt =
     (case cl (user_message prompt) of
        Inl e \<Rightarrow> Inl e
      | Inr None \<Rightarrow> Inl TypeError
      | Inr (Some result) \<Rightarrow>
          (case json_loads env result of
             Inr data \<Rightarrow> convert_to_parsed_scene data
           | Inl JSONDecodeError \<Rightarrow>
               (case re_search False json_pattern result of
                  Some json_match \<Rightarrow>
                    (case json_loads env (group json_match 0) of
                       Inl e \<Rightarrow> Inl e
                     | Inr data \<Rightarrow> convert_to_parsed_scene data)
                | None \<Rightarrow> Inl NoJSONFound)
           | Inl e \<Rightarrow> Inl e))"

definition process_with_deepseek ::
  "nlp_env \<Rightarrow> (string \<Rightarrow> py_error + string option) \<Rightarrow> string \<Rightarrow> py_error + ParsedScene" where
  "process_with_deepseek env cl prompt =
     (case remote_attempt env cl prompt of
        Inr scene \<Rightarrow> Inr scene
      | Inl e \<Rightarrow> process_with_local_nlp env prompt)"

section \<open>Deterministic fallback and the orchestrator\<close>

definition fallback_line :: "nat \<Rightarrow> string \<Rightarrow> DialogueLine" where
  "fallback_line i quote =
     \<lparr>character = PStr (''Character'' @ str_nat (i + 1)), text = PStr quote,
      emotion = PStr ''neutral'', action = PStr [], timing = PFloat 0 0, non_verbal = PList []\<rparr>"

definition process_with_fallback :: "string \<Rightarrow> py_error + ParsedScene" where
  "process_with_fallback prompt =
     (let quotes = map (\<lambda>m. group m 1) (re_finditer False pattern3 prompt)
      in Inr \<lparr>description = PStr prompt,
              characters = [\<lparr>name = PStr ''Character1'', char_description = PStr [],
                             voice_characteristics = PStr [], emotions = PList [],
                             char_actions = PList []\<rparr>],
              dialogue = map (\<lambda>(i, quote). fallback_line i quote) (enumerate_py quotes),
              actions = PList [PStr ''scene action''],
              environment = PStr ''unspecified'',
              mood = PStr ''neutral'',
              duration_estimate = PInt 10\<rparr>)"

definition process_natural_language_prompt :: "nlp_env \<Rightarrow> string \<Rightarrow> py_error + ParsedScene" where
  "process_natural_language_prompt env prompt =
     (case (case client env of
              Some cl \<Rightarrow> process_with_deepseek env cl prompt
            | None \<Rightarrow> process_with_local_nlp env prompt) of
        Inr scene \<Rightarrow> Inr scene
      | Inl e \<Rightarrow> process_with_fallback prompt)"

section \<open>Reference definitions and fixtures\<close>

text \<open>
  The duration formula in the specification's words: the number of whitespace-separated
  words, where a word starts at every non-whitespace character that is first in the text
  or follows whitespace, and the larger of \<open>max(5, word_count / 20)\<close> and
  \<open>dialogue_count * 3\<close>, capped at 30. The duration is a whole number of seconds, so the
  quotient is the integer one.
\<close>

fun words_from :: "bool \<Rightarrow> string \<Rightarrow> nat" where
  "words_from in_word [] = 0"
| "words_from in_word (c # cs) =
     (if py_isspace c then words_from False cs
      else (if in_word then 0 else 1) + words_from True cs)"

definition word_count :: "string \<Rightarrow> nat" where
  "word_count s = words_from False s"

definition spec_duration :: "nat \<Rightarrow> nat \<Rightarrow> int" where
  "spec_duration wc dc = min 30 (max (max 5 (int wc div 20)) (int dc * 3))"

text \<open>The range the specification gives for \<open>duration_estimate\<close>.\<close>

definition duration_in_range :: "ParsedScene \<Rightarrow> bool" where
  "duration_in_range scene =
     (case duration_estimate scene of PInt d \<Rightarrow> 5 \<le> d \<and> d \<le> 30 | _ \<Rightarrow> False)"

text \<open>
  Processors used as concrete inputs. \<open>env_local\<close> has no API key and no NER model;
  its sets enumerate in reverse order of first insertion, one of the orders a hash seed
  can produce.
\<close>

definition env_local :: nlp_env where
  "env_local = \<lparr>client = None, json_loads = (\<lambda>s. Inl JSONDecodeError), ner_pipeline = None,
     set_order = (\<lambda>xs. rev (remdups xs)),
     re_dynamic = (\<lambda>pattern txt. Inl (Raised ''re.error''))\<rparr>"

text \<open>The same processor with another JSON parser installed.\<close>

definition env_local_b :: nlp_env where
  "env_local_b = env_local\<lparr>json_loads := (\<lambda>s. Inr PNone)\<rparr>"

text \<open>A processor whose NER model raises on every text, and a client that times out.\<close>

definition down_client :: "string \<Rightarrow> py_error + string option" where
  "down_client message = Inl (Raised ''timeout'')"

definition down_ner :: "string \<Rightarrow> py_error + (string \<times> string) list" where
  "down_ner txt = Inl (Raised ''model error'')"

definition env_ner_down :: nlp_env where
  "env_ner_down = env_local\<lparr>ner_pipeline := Some down_ner\<rparr>"

definition env_all_down :: nlp_env where
  "env_all_down = env_local\<lparr>client := Some down_client, ner_pipeline := Some down_ner\<rparr>"

text \<open>
  Processors whose remote service answers with a fixed JSON text; \<open>json_loads\<close> parses
  that text as Python's \<^verbatim>\<open>json.loads\<close> does and rejects everything else.
\<close>

definition reply_100 :: string where
  \<open>reply_100 = ''{"duration_estimate": 100}''\<close>

definition reply_100_data :: pyval where
  "reply_100_data = PDict [(''duration_estimate'', PInt 100)]"

definition env_remote_100 :: nlp_env where
  "env_remote_100 = env_local\<lparr>client := Some (\<lambda>message. Inr (Some reply_100)),
     json_loads := (\<lambda>s. if s = reply_100 then Inr reply_100_data else Inl JSONDecodeError)\<rparr>"

definition reply_null :: string where
  \<open>reply_null = ''{"environment": null}''\<close>

definition reply_null_data :: pyval where
  "reply_null_data = PDict [(''environment'', PNone)]"

definition env_remote_null :: nlp_env where
  "env_remote_null = env_local\<lparr>client := Some (\<lambda>message. Inr (Some reply_null)),
     json_loads := (\<lambda>s. if s = reply_null then Inr reply_null_data else Inl JSONDecodeError)\<rparr>"

text \<open>Texts used as concrete inputs.\<close>

definition mixed_text :: string where
  \<open>mixed_text = ''Alice: "Hi" "Bye" said Bob''\<close>

definition asked_text :: string where
  \<open>asked_text = ''"Where are we going?" asked Bob''\<close>

definition asks_text :: string where
  \<open>asks_text = ''"Where are we going?" asks Bob''\<close>

definition shout_text :: string where
  \<open>shout_text = ''"Hi!"''\<close>

definition two_names_text :: string where
  \<open>two_names_text = ''Bob: hi. Alice: yo.''\<close>

definition long_text :: string where
  "long_text = replicate 201 (CHR ''x'')"

text \<open>Projections of a scene used to state results at concrete inputs.\<close>

definition scene_emotions :: "ParsedScene \<Rightarrow> pyval list" where
  "scene_emotions scene = map emotion (dialogue scene)"

definition scene_texts :: "ParsedScene \<Rightarrow> pyval list" where
  "scene_texts scene = map text (dialogue scene)"

definition spoken_by :: "DialogueLine list \<Rightarrow> pyval list" where
  "spoken_by ds = map character ds"

definition character_names :: "Character list \<Rightarrow> pyval list" where
  "character_names cs = map name cs"

text \<open>The names a text's characters should carry: not a false positive.\<close>

definition kept_name :: "string \<Rightarrow> bool" where
  "kept_name nm = (py_lower nm \<notin> set false_positives)"

text \<open>
  The scene schema of the specification: every field of its declared type, a
  non-null environment, and a duration between 5 and 30.
\<close>

definition is_str :: "pyval \<Rightarrow> bool" where
  "is_str v = (case v of PStr s \<Rightarrow> True | _ \<Rightarrow> False)"

definition is_str_list :: "pyval \<Rightarrow> bool" where
  "is_str_list v = (case v of PList xs \<Rightarrow> list_all is_str xs | _ \<Rightarrow> False)"

definition is_number :: "pyval \<Rightarrow> bool" where
  "is_number v = (case v of PInt i \<Rightarrow> True | PFloat m e \<Rightarrow> True | _ \<Rightarrow> False)"

definition well_formed_character :: "Character \<Rightarrow> bool" where
  "well_formed_character c =
     (is_str (name c) \<and> is_str (char_description c) \<and> is_str (voice_characteristics c)
      \<and> is_str_list (emotions c) \<and> is_str_list (char_actions c))"

definition well_formed_line :: "DialogueLine \<Rightarrow> bool" where
  "well_formed_line d =
     (is_str (character d) \<and> is_str (text d) \<and> is_str (emotion d) \<and> is_str (action d)
      \<and> is_number (timing d) \<and> is_str_list (non_verbal d))"

definition well_formed :: "ParsedScene \<Rightarrow> bool" where
  "well_formed scene =
     (is_str (description scene)
      \<and> list_all well_formed_character (characters scene)
      \<and> list_all well_formed_line (dialogue scene)
      \<and> is_str_list (actions scene)
      \<and> is_str (environment scene)
      \<and> is_str (mood scene)
      \<and> duration_in_range scene)"

text \<open>
  What Python guarantees of \<^verbatim>\<open>list(set(xs))\<close>, in whatever order: each element of
  \<open>xs\<close> once.
\<close>

definition set_contract :: "nlp_env \<Rightarrow> bool" where
  "set_contract env = (\<forall>xs. distinct (set_order env xs) \<and> set (set_order env xs) = set xs)"

definition letter :: "char \<Rightarrow> bool" where
  "letter c = (upper_AZ c \<or> lower_az c)"

definition scene_character_names :: "ParsedScene \<Rightarrow> pyval list" where
  "scene_character_names scene = map name (characters scene)"

text \<open>
  A second process without API key and NER model, whose sets enumerate in another order
  than those of \<open>env_local\<close>.
\<close>

definition env_other_seed :: nlp_env where
  "env_other_seed = env_local\<lparr>set_order := remdups\<rparr>"

text \<open>A remote service whose reply is a JSON object with fields of the wrong types.\<close>

definition reply_bad :: string where
  \<open>reply_bad = ''{"description": null, "duration_estimate": "soon"}''\<close>

definition reply_bad_data :: pyval where
  "reply_bad_data = PDict [(''description'', PNone), (''duration_estimate'', PStr ''soon'')]"

definition env_remote_bad :: nlp_env where
  "env_remote_bad = env_local\<lparr>client := Some (\<lambda>message. Inr (Some reply_bad)),
     json_loads := (\<lambda>s. if s = reply_bad then Inr reply_bad_data else Inl JSONDecodeError)\<rparr>"

text \<open>
  A remote service that wraps the same object as \<open>reply_100\<close> in prose, so that only the
  salvage of the first brace to the last parses.
\<close>

definition reply_prose :: string where
  \<open>reply_prose = ''Here you go: {"duration_estimate": 100} Enjoy''\<close>

definition env_remote_prose :: nlp_env where
  "env_remote_prose = env_local\<lparr>client := Some (\<lambda>message. Inr (Some reply_prose)),
     json_loads := (\<lambda>s. if s = reply_100 then Inr reply_100_data else Inl JSONDecodeError)\<rparr>"

section \<open>Properties\<close>

subsection \<open>Shared facts\<close>

lemma fallback_scene:
  "process_with_fallback prompt = Inr scene \<Longrightarrow>
     description scene = PStr prompt \<and> environment scene = PStr ''unspecified''
     \<and> mood scene = PStr ''neutral'' \<and> duration_estimate scene = PInt 10
     \<and> dialogue scene = map (\<lambda>(i, quote). fallback_line i quote)
           (enumerate_py (map (\<lambda>m. group m 1) (re_finditer False pattern3 prompt)))"
  by (auto simp: process_with_fallback_def Let_def)

lemma fallback_returns: "\<exists>scene. process_with_fallback prompt = Inr scene"
  by (simp add: process_with_fallback_def Let_def)

lemma local_scene:
  "process_with_local_nlp env prompt = Inr scene \<Longrightarrow>
     description scene = PStr (if length prompt > 200 then take 200 prompt @ ''...'' else prompt)
     \<and> dialogue scene = extract_dialogue prompt
     \<and> environment scene = PStr (extract_environment prompt)
     \<and> mood scene = PStr (extract_mood prompt)
     \<and> duration_estimate scene = PInt (estimate_duration prompt (extract_dialogue prompt))
     \<and> extract_characters env prompt = Inr (characters scene)"
  by (auto simp: process_with_local_nlp_def Let_def split: sum.splits)

lemma convert_scene:
  "convert_to_parsed_scene data = Inr scene \<Longrightarrow>
     environment scene = field_or data ''environment'' (PStr [])
     \<and> duration_estimate scene = field_or data ''duration_estimate'' (PInt 10)"
  by (auto simp: convert_to_parsed_scene_def split: sum.splits)

lemma estimate_duration_bounds:
  "5 \<le> estimate_duration txt ds \<and> estimate_duration txt ds \<le> 30"
  by (simp add: estimate_duration_def Let_def)

lemma split_acc_length:
  "length (split_acc w s) = words_from (w \<noteq> []) s + (if w = [] then 0 else 1)"
  by (induction s arbitrary: w) auto

subsection \<open>Duration formula\<close>

text \<open>
  C8. For every text and every list of dialogue lines, the local tier's duration estimate
  is the larger of \<open>max(5, word_count / 20)\<close> and \<open>dialogue_count * 3\<close>, capped at 30,
  with \<open>word_count\<close> the number of whitespace-separated words of the text and
  \<open>dialogue_count\<close> the number of lines.
\<close>

theorem estimate_duration_formula:
  "estimate_duration txt ds = spec_duration (word_count txt) (length ds)"
  by (simp add: estimate_duration_def spec_duration_def word_count_def py_split_def
      split_acc_length Let_def)

subsection \<open>Totality of the orchestrator\<close>

lemma process_returns: "\<exists>scene. process_natural_language_prompt env prompt = Inr scene"
  using fallback_returns [of prompt]
  by (auto simp: process_natural_language_prompt_def split: sum.splits option.splits)

subsection \<open>Duration range\<close>

lemma convert_dict: "convert_to_parsed_scene data = Inr scene \<Longrightarrow> \<exists>kvs. data = PDict kvs"
  by (cases data) (simp_all add: convert_to_parsed_scene_def convert_items_def)

lemma convert_duration:
  "convert_to_parsed_scene (PDict kvs) = Inr scene \<Longrightarrow>
   duration_estimate scene =
     (case map_of kvs ''duration_estimate'' of Some v \<Rightarrow> v | None \<Rightarrow> PInt 10)"
  by (auto simp: convert_to_parsed_scene_def field_or_def split: sum.splits)

lemma map_of_dict_set_other:
  "k' \<noteq> k \<Longrightarrow> map_of (dict_set kvs k v) k' = map_of kvs k'"
  by (induction kvs) (auto simp: dict_set_def)

lemma convert_any_duration:
  "convert_to_parsed_scene (PDict kvs) = Inr scene \<Longrightarrow>
   convert_to_parsed_scene (PDict (dict_set kvs ''duration_estimate'' v)) =
     Inr (scene\<lparr>duration_estimate := v\<rparr>)"
  by (auto simp: convert_to_parsed_scene_def convert_items_def field_or_def
      map_of_dict_set_other split: sum.splits) (simp add: dict_set_def)

text \<open>
  The data a reply stands for: the direct parse, or on a \<^verbatim>\<open>JSONDecodeError\<close> the parse of
  the text from the first brace to the last.
\<close>

lemma remote_success:
  "remote_attempt env cl prompt = Inr scene \<longleftrightarrow>
     (\<exists>result data. cl (user_message prompt) = Inr (Some result)
        \<and> (json_loads env result = Inr data
            \<or> (json_loads env result = Inl JSONDecodeError
                \<and> (\<exists>m. re_search False json_pattern result = Some m
                      \<and> json_loads env (group m 0) = Inr data)))
        \<and> convert_to_parsed_scene data = Inr scene)"
  by (auto simp: remote_attempt_def split: sum.splits option.splits py_error.splits)

lemma local_or_fallback_range:
  assumes "(case process_with_local_nlp env prompt of
              Inr sc \<Rightarrow> Inr sc
            | Inl e \<Rightarrow> process_with_fallback prompt) = Inr scene"
  shows "duration_in_range scene"
proof (cases "process_with_local_nlp env prompt")
  case (Inl e)
  with assms have "process_with_fallback prompt = Inr scene" by simp
  then have "duration_estimate scene = PInt 10" by (simp add: fallback_scene)
  then show ?thesis by (simp add: duration_in_range_def)
next
  case (Inr sc)
  with assms have "process_with_local_nlp env prompt = Inr scene" by simp
  then have "duration_estimate scene = PInt (estimate_duration prompt (extract_dialogue prompt))"
    by (simp add: local_scene)
  then show ?thesis
    using estimate_duration_bounds [of prompt "extract_dialogue prompt"]
    by (simp add: duration_in_range_def)
qed

text \<open>
  C2, as the code has it. When the result comes from the local or the fallback tier (no
  client is configured, or the remote attempt failed), \<open>duration_estimate\<close> is an integer
  between 5 and 30. When the remote attempt succeeds, the result is the conversion of the
  JSON object that the service's reply parses to (directly, or from its first brace to its
  last), and its \<open>duration_estimate\<close> is the value that object holds under that key,
  unchanged, or 10 when the key is missing. No range is checked: whatever value stands
  under the key, the conversion succeeds as before and returns it.
\<close>

theorem duration_range_by_tier:
  "((client env = None \<or> (\<exists>cl e. client env = Some cl \<and> remote_attempt env cl prompt = Inl e)) \<longrightarrow>
      process_natural_language_prompt env prompt = Inr scene \<longrightarrow> duration_in_range scene)
   \<and> (client env = Some cl' \<longrightarrow> cl' (user_message prompt) = Inr (Some result) \<longrightarrow>
        (json_loads env result = Inr (PDict kvs)
         \<or> (json_loads env result = Inl JSONDecodeError
             \<and> (\<exists>m. re_search False json_pattern result = Some m
                   \<and> json_loads env (group m 0) = Inr (PDict kvs)))) \<longrightarrow>
        convert_to_parsed_scene (PDict kvs) = Inr scene' \<longrightarrow>
        process_natural_language_prompt env prompt = Inr scene'
        \<and> duration_estimate scene' =
            (case map_of kvs ''duration_estimate'' of Some v \<Rightarrow> v | None \<Rightarrow> PInt 10))
   \<and> (client env = Some cl' \<longrightarrow> remote_attempt env cl' prompt = Inr scene'' \<longrightarrow>
        (\<exists>result' kvs'. cl' (user_message prompt) = Inr (Some result')
           \<and> (json_loads env result' = Inr (PDict kvs')
               \<or> (json_loads env result' = Inl JSONDecodeError
                   \<and> (\<exists>m. re_search False json_pattern result' = Some m
                         \<and> json_loads env (group m 0) = Inr (PDict kvs'))))
           \<and> convert_to_parsed_scene (PDict kvs') = Inr scene''))
   \<and> (convert_to_parsed_scene (PDict kvs) = Inr scene' \<longrightarrow>
        convert_to_parsed_scene (PDict (dict_set kvs ''duration_estimate'' v)) =
          Inr (scene'\<lparr>duration_estimate := v\<rparr>))"
proof (intro conjI impI)
  assume tier: "client env = None \<or> (\<exists>cl e. client env = Some cl \<and> remote_attempt env cl prompt = Inl e)"
    and res: "process_natural_language_prompt env prompt = Inr scene"
  from tier res have "(case process_with_local_nlp env prompt of
              Inr sc \<Rightarrow> Inr sc
            | Inl e \<Rightarrow> process_with_fallback prompt) = Inr scene"
    by (auto simp: process_natural_language_prompt_def process_with_deepseek_def)
  then show "duration_in_range scene"
    by (rule local_or_fallback_range)
next
  assume c: "client env = Some cl'" and r: "cl' (user_message prompt) = Inr (Some result)"
    and j: "json_loads env result = Inr (PDict kvs)
         \<or> (json_loads env result = Inl JSONDecodeError
             \<and> (\<exists>m. re_search False json_pattern result = Some m
                   \<and> json_loads env (group m 0) = Inr (PDict kvs)))"
    and k: "convert_to_parsed_scene (PDict kvs) = Inr scene'"
  from r j k have "remote_attempt env cl' prompt = Inr scene'"
    unfolding remote_success by blast
  with c show "process_natural_language_prompt env prompt = Inr scene'"
    by (simp add: process_natural_language_prompt_def process_with_deepseek_def)
  from k show "duration_estimate scene' =
      (case map_of kvs ''duration_estimate'' of Some v \<Rightarrow> v | None \<Rightarrow> PInt 10)"
    by (rule convert_duration)
next
  assume "client env = Some cl'" and ok: "remote_attempt env cl' prompt = Inr scene''"
  from ok obtain result' data where r: "cl' (user_message prompt) = Inr (Some result')"
    and j: "json_loads env result' = Inr data
            \<or> (json_loads env result' = Inl JSONDecodeError
                \<and> (\<exists>m. re_search False json_pattern result' = Some m
                      \<and> json_loads env (group m 0) = Inr data))"
    and k: "convert_to_parsed_scene data = Inr scene''"
    unfolding remote_success by blast
  from convert_dict [OF k] obtain kvs' where "data = PDict kvs'" ..
  with r j k show "\<exists>result' kvs'. cl' (user_message prompt) = Inr (Some result')
           \<and> (json_loads env result' = Inr (PDict kvs')
               \<or> (json_loads env result' = Inl JSONDecodeError
                   \<and> (\<exists>m. re_search False json_pattern result' = Some m
                         \<and> json_loads env (group m 0) = Inr (PDict kvs'))))
           \<and> convert_to_parsed_scene (PDict kvs') = Inr scene''"
    by blast
next
  assume "convert_to_parsed_scene (PDict kvs) = Inr scene'"
  then show "convert_to_parsed_scene (PDict (dict_set kvs ''duration_estimate'' v)) =
      Inr (scene'\<lparr>duration_estimate := v\<rparr>)"
    by (rule convert_any_duration)
qed

lemma remote_100:
  "remote_attempt env_remote_100 (\<lambda>message. Inr (Some reply_100)) ''Hello'' =
     Inr \<lparr>description = PStr [], characters = [], dialogue = [], actions = PList [],
          environment = PStr [], mood = PStr ''neutral'', duration_estimate = PInt 100\<rparr>"
  by (simp add: remote_attempt_def env_remote_100_def reply_100_data_def
      convert_to_parsed_scene_def convert_items_def field_or_def)

lemma remote_null:
  "remote_attempt env_remote_null (\<lambda>message. Inr (Some reply_null)) ''Hello'' =
     Inr \<lparr>description = PStr [], characters = [], dialogue = [], actions = PList [],
          environment = PNone, mood = PStr ''neutral'', duration_estimate = PInt 10\<rparr>"
  by (simp add: remote_attempt_def env_remote_null_def reply_null_data_def
      convert_to_parsed_scene_def convert_items_def field_or_def)

lemma prose_salvage:
  \<open>re_search False json_pattern reply_prose =
     Some [(0, ''{"duration_estimate": 100}'')]\<close>
  by code_simp

theorem duration_range_by_tier_witness:
  "client env_local = None
   \<and> (\<exists>scene. process_natural_language_prompt env_local ''Hello'' = Inr scene
         \<and> duration_in_range scene)
   \<and> client env_remote_100 = Some (\<lambda>message. Inr (Some reply_100))
   \<and> json_loads env_remote_100 reply_100 = Inr (PDict [(''duration_estimate'', PInt 100)])
   \<and> (\<exists>scene'. convert_to_parsed_scene (PDict [(''duration_estimate'', PInt 100)]) = Inr scene'
         \<and> process_natural_language_prompt env_remote_100 ''Hello'' = Inr scene'
         \<and> duration_estimate scene' = PInt 100
         \<and> convert_to_parsed_scene (PDict [(''duration_estimate'', PInt 7)]) =
             Inr (scene'\<lparr>duration_estimate := PInt 7\<rparr>))
   \<and> json_loads env_remote_prose reply_prose = Inl JSONDecodeError
   \<and> (\<exists>scene'. process_natural_language_prompt env_remote_prose ''Hello'' = Inr scene'
         \<and> duration_estimate scene' = PInt 100)"
proof -
  have c: "client env_local = None"
    by (simp add: env_local_def)
  obtain scene where s: "process_natural_language_prompt env_local ''Hello'' = Inr scene"
    using process_returns by blast
  from duration_range_by_tier [of env_local "''Hello''" scene] c s
  have d: "duration_in_range scene" by blast
  have c': "client env_remote_100 = Some (\<lambda>message. Inr (Some reply_100))"
    by (simp add: env_remote_100_def env_local_def)
  have j: "json_loads env_remote_100 reply_100 = Inr (PDict [(''duration_estimate'', PInt 100)])"
    by (simp add: env_remote_100_def reply_100_data_def)
  obtain scene' where
    k: "convert_to_parsed_scene (PDict [(''duration_estimate'', PInt 100)]) = Inr scene'"
    by (simp add: convert_to_parsed_scene_def convert_items_def)
  from duration_range_by_tier [of env_remote_100 "''Hello''" _ "\<lambda>message. Inr (Some reply_100)"
      reply_100 "[(''duration_estimate'', PInt 100)]" scene' _ "PInt 7"] c' j k
  have r: "process_natural_language_prompt env_remote_100 ''Hello'' = Inr scene'
      \<and> duration_estimate scene' = PInt 100
      \<and> convert_to_parsed_scene (PDict [(''duration_estimate'', PInt 7)]) =
          Inr (scene'\<lparr>duration_estimate := PInt 7\<rparr>)"
    by (simp add: dict_set_def)
  have c'': "client env_remote_prose = Some (\<lambda>message. Inr (Some reply_prose))"
    by (simp add: env_remote_prose_def env_local_def)
  have j': "json_loads env_remote_prose reply_prose = Inl JSONDecodeError"
    by (simp add: env_remote_prose_def reply_prose_def reply_100_def)
  have j'': "json_loads env_remote_prose (group [(0, reply_100)] 0) =
      Inr (PDict [(''duration_estimate'', PInt 100)])"
    by (simp add: env_remote_prose_def reply_100_data_def group_def)
  from duration_range_by_tier [of env_remote_prose "''Hello''" _
      "\<lambda>message. Inr (Some reply_prose)" reply_prose "[(''duration_estimate'', PInt 100)]" scene']
    c'' j' j'' k prose_salvage
  have r': "process_natural_language_prompt env_remote_prose ''Hello'' = Inr scene'
      \<and> duration_estimate scene' = PInt 100"
    by (simp add: reply_100_def)
  from c s d c' j k r j' r' show ?thesis by blast
qed

theorem duration_out_of_range_counterexample:
  "map_sum id duration_estimate (process_natural_language_prompt env_remote_100 ''Hello'') =
     Inr (PInt 100)
   \<and> map_sum id duration_in_range (process_natural_language_prompt env_remote_100 ''Hello'') =
     Inr False"
  using remote_100
  by (simp add: process_natural_language_prompt_def process_with_deepseek_def
      env_remote_100_def env_local_def duration_in_range_def)

subsection \<open>Environment\<close>

lemma first_location_None:
  "first_location ps txt = None \<longleftrightarrow> (\<forall>pattern \<in> set ps. re_search True pattern txt = None)"
  by (induction ps) (auto split: option.splits)

text \<open>
  C5, as the code has it. The local tier's \<open>environment\<close> is always a string, and it is
  the literal \<open>unspecified location\<close> whenever none of the three location patterns
  matches and no environment keyword occurs in the text. The fallback tier's
  \<open>environment\<close> is always the string \<open>unspecified\<close>. The remote tier's \<open>environment\<close> is
  the reply's value unchanged (the empty string when the key is missing), of whatever
  type the reply gives it.
\<close>

theorem environment_by_tier:
  "(process_with_local_nlp env prompt = Inr scene \<longrightarrow>
      environment scene = PStr (extract_environment prompt))
   \<and> ((\<forall>pattern \<in> set location_patterns. re_search True pattern prompt = None)
        \<and> (\<forall>word \<in> set env_words. \<not> py_contains word (py_lower prompt)) \<longrightarrow>
      extract_environment prompt = ''unspecified location'')
   \<and> (process_with_fallback prompt = Inr scene' \<longrightarrow> environment scene' = PStr ''unspecified'')
   \<and> (convert_to_parsed_scene data = Inr scene'' \<longrightarrow>
        environment scene'' = field_or data ''environment'' (PStr []))"
proof (intro conjI impI)
  assume "process_with_local_nlp env prompt = Inr scene"
  then show "environment scene = PStr (extract_environment prompt)"
    by (simp add: local_scene)
next
  assume h: "(\<forall>pattern \<in> set location_patterns. re_search True pattern prompt = None)
        \<and> (\<forall>word \<in> set env_words. \<not> py_contains word (py_lower prompt))"
  then have "first_location location_patterns prompt = None"
    by (simp add: first_location_None)
  moreover from h have "filter (\<lambda>word. py_contains word (py_lower prompt)) env_words = []"
    by (simp add: filter_empty_conv)
  ultimately show "extract_environment prompt = ''unspecified location''"
    by (simp add: extract_environment_def)
next
  assume "process_with_fallback prompt = Inr scene'"
  then show "environment scene' = PStr ''unspecified''"
    by (simp add: fallback_scene)
next
  assume "convert_to_parsed_scene data = Inr scene''"
  then show "environment scene'' = field_or data ''environment'' (PStr [])"
    by (simp add: convert_scene)
qed

lemma hello_no_location:
  "(\<forall>pattern \<in> set location_patterns. re_search True pattern ''Hello'' = None)
   \<and> (\<forall>word \<in> set env_words. \<not> py_contains word (py_lower ''Hello''))"
  by code_simp

lemma hello_characters: "extract_characters env_local ''Hello'' = Inr []"
  by code_simp

theorem environment_by_tier_witness:
  "(\<exists>scene. process_with_local_nlp env_local ''Hello'' = Inr scene
       \<and> environment scene = PStr ''unspecified location'')
   \<and> (\<exists>scene'. process_with_fallback ''Hello'' = Inr scene'
         \<and> environment scene' = PStr ''unspecified'')
   \<and> (\<exists>scene''. convert_to_parsed_scene reply_null_data = Inr scene''
         \<and> environment scene'' = PNone)"
proof -
  obtain scene where s: "process_with_local_nlp env_local ''Hello'' = Inr scene"
    by (simp add: process_with_local_nlp_def hello_characters Let_def)
  obtain scene' where s': "process_with_fallback ''Hello'' = Inr scene'"
    using fallback_returns by blast
  obtain scene'' where s'': "convert_to_parsed_scene reply_null_data = Inr scene''"
    by (simp add: convert_to_parsed_scene_def convert_items_def reply_null_data_def)
  have f: "field_or reply_null_data ''environment'' (PStr []) = PNone"
    by (simp add: field_or_def reply_null_data_def)
  from environment_by_tier [of env_local "''Hello''" scene scene' reply_null_data scene'']
    s s' s'' hello_no_location f
  have "environment scene = PStr ''unspecified location''
      \<and> environment scene' = PStr ''unspecified'' \<and> environment scene'' = PNone"
    by simp
  with s s' s'' show ?thesis by blast
qed

theorem environment_counterexample:
  "map_sum id environment (process_natural_language_prompt env_ner_down ''Hello'') =
     Inr (PStr ''unspecified'')
   \<and> map_sum id environment (process_natural_language_prompt env_remote_null ''Hello'') =
     Inr PNone"
proof -
  have "process_with_local_nlp env_ner_down ''Hello'' = Inl (Raised ''model error'')"
    by (simp add: process_with_local_nlp_def extract_characters_def detect_names_def
        env_ner_down_def down_ner_def)
  then have "map_sum id environment (process_natural_language_prompt env_ner_down ''Hello'') =
     Inr (PStr ''unspecified'')"
    by (simp add: process_natural_language_prompt_def env_ner_down_def env_local_def
        process_with_fallback_def Let_def)
  moreover have "map_sum id environment
      (process_natural_language_prompt env_remote_null ''Hello'') = Inr PNone"
    using remote_null
    by (simp add: process_natural_language_prompt_def process_with_deepseek_def
        env_remote_null_def env_local_def)
  ultimately show ?thesis by simp
qed

subsection \<open>Fallback emotions\<close>

lemma enumerate_snd: "map (\<lambda>(i, x). f x) (enumerate_py xs) = map f xs"
proof -
  have a: "map snd (zip [0 ..< length xs] xs) = xs"
    by simp
  have "map (\<lambda>(i, x). f x) (enumerate_py xs) = map (f \<circ> snd) (zip [0 ..< length xs] xs)"
    by (simp only: enumerate_py_def case_prod_unfold comp_def)
  also have "\<dots> = map f (map snd (zip [0 ..< length xs] xs))"
    by (simp only: map_map)
  also have "\<dots> = map f xs"
    by (simp only: a)
  finally show ?thesis .
qed

text \<open>
  C6, as the code has it. The fallback extractor turns every quoted substring of the
  prompt into a line, in order, and gives every such line the emotion \<open>neutral\<close>; it does
  not apply the surface-cue heuristic. The two agree on a quote exactly when the quote
  has no \<open>!\<close>, no \<open>?\<close>, no ellipsis and is not upper-case.
\<close>

theorem fallback_emotion_neutral:
  "(process_with_fallback prompt = Inr scene \<longrightarrow>
      (\<forall>d \<in> set (dialogue scene). emotion d = PStr ''neutral'')
      \<and> scene_texts scene = map (\<lambda>m. PStr (group m 1)) (re_finditer False pattern3 prompt))
   \<and> (extract_emotion_from_dialogue quote = ''neutral'' \<longleftrightarrow>
        \<not> py_contains ''!'' quote \<and> \<not> py_contains ''?'' quote
        \<and> \<not> py_contains ''...'' quote \<and> \<not> py_isupper quote)"
proof (intro conjI impI)
  assume "process_with_fallback prompt = Inr scene"
  then have d: "dialogue scene = map (\<lambda>(i, quote). fallback_line i quote)
           (enumerate_py (map (\<lambda>m. group m 1) (re_finditer False pattern3 prompt)))"
    by (simp add: fallback_scene)
  show "\<forall>d \<in> set (dialogue scene). emotion d = PStr ''neutral''"
    unfolding d by (auto simp: fallback_line_def)
  have "map text (dialogue scene) =
      map (\<lambda>(i, quote). PStr quote)
        (enumerate_py (map (\<lambda>m. group m 1) (re_finditer False pattern3 prompt)))"
    unfolding d by (simp add: fallback_line_def case_prod_unfold comp_def)
  then show "scene_texts scene = map (\<lambda>m. PStr (group m 1)) (re_finditer False pattern3 prompt)"
    by (simp add: scene_texts_def enumerate_snd comp_def)
next
  show "extract_emotion_from_dialogue quote = ''neutral'' \<longleftrightarrow>
        \<not> py_contains ''!'' quote \<and> \<not> py_contains ''?'' quote
        \<and> \<not> py_contains ''...'' quote \<and> \<not> py_isupper quote"
    by (simp add: extract_emotion_from_dialogue_def)
qed

lemma shout_quotes:
  "map (\<lambda>m. PStr (group m 1)) (re_finditer False pattern3 shout_text) = [PStr ''Hi!'']"
  by code_simp

lemma shout_heuristic: "extract_emotion_from_dialogue ''Hi!'' = ''excited''"
  by code_simp

theorem fallback_emotion_neutral_witness:
  "\<exists>scene. process_with_fallback shout_text = Inr scene
     \<and> scene_texts scene = [PStr ''Hi!'']
     \<and> scene_emotions scene = [PStr ''neutral'']
     \<and> extract_emotion_from_dialogue ''Hi!'' \<noteq> ''neutral''"
proof -
  obtain scene where s: "process_with_fallback shout_text = Inr scene"
    using fallback_returns by blast
  from fallback_emotion_neutral [of shout_text scene "''Hi!''"] s shout_quotes
  have t: "scene_texts scene = [PStr ''Hi!'']"
    and e: "\<forall>d \<in> set (dialogue scene). emotion d = PStr ''neutral''"
    by simp_all
  from t obtain d where "dialogue scene = [d]"
    by (auto simp: scene_texts_def map_eq_Cons_conv)
  with e have "scene_emotions scene = [PStr ''neutral'']"
    by (simp add: scene_emotions_def)
  with s t shout_heuristic show ?thesis by auto
qed

theorem fallback_emotion_counterexample:
  "map_sum id scene_texts (process_with_fallback shout_text) = Inr [PStr ''Hi!'']
   \<and> map_sum id scene_emotions (process_with_fallback shout_text) = Inr [PStr ''neutral'']
   \<and> extract_emotion_from_dialogue ''Hi!'' = ''excited''"
proof -
  have q: "re_finditer False pattern3 shout_text = [[(0, shout_text), (1, ''Hi!'')]]"
    by code_simp
  have "map_sum id scene_texts (process_with_fallback shout_text) = Inr [PStr ''Hi!'']"
    by (simp add: process_with_fallback_def Let_def q scene_texts_def enumerate_py_def
        group_def fallback_line_def)
  moreover have "map_sum id scene_emotions (process_with_fallback shout_text) =
      Inr [PStr ''neutral'']"
    by (simp add: process_with_fallback_def Let_def q scene_emotions_def enumerate_py_def
        group_def fallback_line_def)
  ultimately show ?thesis
    using shout_heuristic by simp
qed

subsection \<open>Dialogue patterns\<close>

lemma mixed_pattern1:
  \<open>re_finditer False pattern1 mixed_text = [[(0, ''Alice: "Hi"''), (2, ''Hi''), (1, ''Alice'')]]\<close>
  by code_simp

lemma mixed_pattern2:
  \<open>re_finditer False pattern2 mixed_text = [[(0, ''"Bye" said Bob''), (2, ''Bob''), (1, ''Bye'')]]\<close>
  by code_simp

lemma mixed_dialogue:
  "spoken_by (lines1 mixed_text) = [PStr ''Alice'']
   \<and> spoken_by (lines2 mixed_text) = [PStr ''Bob'']
   \<and> spoken_by (extract_dialogue mixed_text) = [PStr ''Alice'', PStr ''Bob'']"
  by (simp add: extract_dialogue_def lines1_def lines2_def Let_def mixed_pattern1 mixed_pattern2
      spoken_by_def local_line_def group_def)

lemma shout_no_attribution:
  "re_finditer False pattern1 shout_text = [] \<and> re_finditer False pattern2 shout_text = []"
  by code_simp

text \<open>
  C3, as the code has it. The matches of pattern 1 and the matches of pattern 2 are both
  collected: whenever either pattern matches, the result is the pattern-1 lines followed by
  the pattern-2 lines. Only pattern 3 is conditional: its lines are the result exactly
  when patterns 1 and 2 both match nothing. So when pattern 1 matches, no pattern-3 line
  is returned, but every pattern-2 match still contributes a line.
\<close>

theorem dialogue_patterns_combined:
  "(re_finditer False pattern1 txt \<noteq> [] \<or> re_finditer False pattern2 txt \<noteq> [] \<longrightarrow>
      extract_dialogue txt = lines1 txt @ lines2 txt)
   \<and> (re_finditer False pattern1 txt = [] \<and> re_finditer False pattern2 txt = [] \<longrightarrow>
      extract_dialogue txt = lines3 txt)"
  by (auto simp: extract_dialogue_def lines1_def lines2_def Let_def)

theorem dialogue_patterns_combined_witness:
  "re_finditer False pattern1 mixed_text \<noteq> []
   \<and> extract_dialogue mixed_text = lines1 mixed_text @ lines2 mixed_text
   \<and> spoken_by (extract_dialogue mixed_text) = [PStr ''Alice'', PStr ''Bob'']
   \<and> re_finditer False pattern1 shout_text = [] \<and> re_finditer False pattern2 shout_text = []
   \<and> extract_dialogue shout_text = lines3 shout_text"
  using dialogue_patterns_combined [of mixed_text] dialogue_patterns_combined [of shout_text]
    mixed_pattern1 mixed_dialogue shout_no_attribution
  by simp

theorem dialogue_cascade_counterexample:
  "re_finditer False pattern1 mixed_text \<noteq> []
   \<and> spoken_by (lines1 mixed_text) = [PStr ''Alice'']
   \<and> spoken_by (lines2 mixed_text) = [PStr ''Bob'']
   \<and> spoken_by (extract_dialogue mixed_text) = [PStr ''Alice'', PStr ''Bob'']
   \<and> extract_dialogue mixed_text \<noteq> lines1 mixed_text"
proof -
  have "spoken_by (extract_dialogue mixed_text) \<noteq> spoken_by (lines1 mixed_text)"
    using mixed_dialogue by simp
  then have "extract_dialogue mixed_text \<noteq> lines1 mixed_text"
    by auto
  then show ?thesis
    using mixed_pattern1 mixed_dialogue by simp
qed

lemma asked_patterns:
  "re_finditer False pattern1 asked_text = [] \<and> re_finditer False pattern2 asked_text = []"
  by code_simp

lemma asked_dialogue:
  "extract_dialogue asked_text =
     [\<lparr>character = PStr ''Character1'', text = PStr ''Where are we going?'',
       emotion = PStr ''questioning'', action = PStr [], timing = PFloat 0 0,
       non_verbal = PList []\<rparr>]"
  by code_simp

lemma asks_dialogue:
  "lines1 asks_text = []
   \<and> lines2 asks_text =
     [\<lparr>character = PStr ''Bob'', text = PStr ''Where are we going?'',
       emotion = PStr ''questioning'', action = PStr [], timing = PFloat 0 0,
       non_verbal = PList []\<rparr>]"
  by code_simp

text \<open>
  C4, as the code has it. For the input \<open>"Where are we going?" asked Bob\<close> the extractor
  returns exactly one line, with text \<open>Where are we going?\<close> and emotion \<open>questioning\<close>, but
  its character is the placeholder \<open>Character1\<close>, produced by pattern 3: \<open>asked\<close> is not
  among the verbs \<open>said|says|asks|replies|responds\<close> of pattern 2, so patterns 1 and 2
  match nothing. With \<open>asks\<close> in place of \<open>asked\<close>, pattern 2 fires and the character is
  \<open>Bob\<close>.
\<close>

theorem asked_bob_dialogue:
  "extract_dialogue asked_text =
     [\<lparr>character = PStr ''Character1'', text = PStr ''Where are we going?'',
       emotion = PStr ''questioning'', action = PStr [], timing = PFloat 0 0,
       non_verbal = PList []\<rparr>]
   \<and> re_finditer False pattern1 asked_text = []
   \<and> re_finditer False pattern2 asked_text = []
   \<and> extract_dialogue asked_text = lines3 asked_text
   \<and> extract_dialogue asks_text =
     [\<lparr>character = PStr ''Bob'', text = PStr ''Where are we going?'',
       emotion = PStr ''questioning'', action = PStr [], timing = PFloat 0 0,
       non_verbal = PList []\<rparr>]
   \<and> extract_dialogue asks_text = lines2 asks_text"
  using asked_patterns asked_dialogue asks_dialogue
  by (simp add: extract_dialogue_def lines1_def lines2_def Let_def)

theorem asked_bob_counterexample:
  "spoken_by (extract_dialogue asked_text) = [PStr ''Character1'']
   \<and> spoken_by (extract_dialogue asked_text) \<noteq> [PStr ''Bob'']
   \<and> re_finditer False pattern2 asked_text = []"
  using asked_patterns asked_dialogue
  by (simp add: spoken_by_def)

subsection \<open>Order of the characters\<close>

lemma build_character_name: "build_character env txt nm = Inr c \<Longrightarrow> name c = PStr nm"
  by (auto simp: build_character_def split: sum.splits)

lemma map_err_names:
  "map_err (build_character env txt) ns = Inr cs \<Longrightarrow> map name cs = map PStr ns"
proof (induction ns arbitrary: cs)
  case Nil
  then show ?case by simp
next
  case (Cons n ns)
  then show ?case
    by (auto split: sum.splits dest: build_character_name)
qed

lemma map_err_total:
  "(\<And>x. x \<in> set xs \<Longrightarrow> \<exists>y. f x = Inr y) \<Longrightarrow> \<exists>ys. map_err f xs = Inr ys"
proof (induction xs)
  case Nil
  then show ?case by simp
next
  case (Cons x xs)
  then obtain y ys where "f x = Inr y" and "map_err f xs = Inr ys"
    by (metis list.set_intros(1) list.set_intros(2))
  then show ?case by simp
qed

lemma build_character_plain:
  assumes "re_plain nm"
  shows "\<exists>c. build_character env txt nm = Inr c"
proof -
  from assms have "\<exists>d. extract_character_description env txt nm = Inr d"
    by (cases "re_search True (description_pattern nm) txt")
      (simp_all add: extract_character_description_def)
  then obtain d where d: "extract_character_description env txt nm = Inr d" ..
  from assms have "\<And>emo. \<exists>b. emotion_found env txt nm emo = Inr b"
    by (simp add: emotion_found_def)
  then have "\<exists>found. map_err (emotion_found env txt nm) emotion_words = Inr found"
    by (intro map_err_total) blast
  then obtain es where es: "extract_character_emotions env txt nm = Inr es"
    by (auto simp: extract_character_emotions_def)
  from assms obtain acts where acts: "extract_character_actions env txt nm = Inr acts"
    by (simp add: extract_character_actions_def)
  from d es acts show ?thesis
    by (simp add: build_character_def)
qed

lemma characters_names:
  assumes "detect_names env txt = Inr ns" and "extract_characters env txt = Inr cs"
  shows "character_names cs = map PStr (filter kept_name (set_order env ns))"
proof -
  from assms have "map_err (build_character env txt)
      (filter (\<lambda>nm. py_lower nm \<notin> set false_positives) (set_order env ns)) = Inr cs"
    by (simp add: extract_characters_def Let_def)
  then have "map name cs =
      map PStr (filter (\<lambda>nm. py_lower nm \<notin> set false_positives) (set_order env ns))"
    by (rule map_err_names)
  then show ?thesis
    by (simp add: character_names_def kept_name_def [abs_def])
qed

lemma two_names_detected: "detect_names env_local two_names_text = Inr [''Bob'', ''Alice'']"
  by code_simp

lemma two_names_kept:
  "filter kept_name (set_order env_local [''Bob'', ''Alice'']) = [''Alice'', ''Bob'']"
  by code_simp

lemma two_names_plain: "re_plain ''Alice'' \<and> re_plain ''Bob''"
  by code_simp

lemma two_names_characters:
  "\<exists>cs. extract_characters env_local two_names_text = Inr cs
     \<and> character_names cs = [PStr ''Alice'', PStr ''Bob'']"
proof -
  have "\<And>nm. nm \<in> set [''Alice'', ''Bob''] \<Longrightarrow>
      \<exists>c. build_character env_local two_names_text nm = Inr c"
    using two_names_plain build_character_plain by auto
  then have "\<exists>cs. map_err (build_character env_local two_names_text) [''Alice'', ''Bob''] = Inr cs"
    by (rule map_err_total)
  then obtain cs where "extract_characters env_local two_names_text = Inr cs"
    using two_names_kept
    by (auto simp: extract_characters_def two_names_detected Let_def kept_name_def [abs_def])
  then show ?thesis
    using characters_names [OF two_names_detected] two_names_kept by auto
qed

text \<open>
  C7, as the code has it. In the local tier the characters are the detected names after
  \<^verbatim>\<open>list(set(...))\<close> and the removal of the false positives, one record per name, in the
  order in which the set enumerates them; that order is fixed by the process's string
  hashing and need not be the order of detection. Each kept name occurs exactly once.
\<close>

theorem characters_in_set_order:
  "detect_names env txt = Inr ns \<longrightarrow> extract_characters env txt = Inr cs \<longrightarrow>
     character_names cs = map PStr (filter kept_name (set_order env ns))
     \<and> (distinct (set_order env ns) \<and> set (set_order env ns) = set ns \<longrightarrow>
          distinct (character_names cs)
          \<and> set (character_names cs) = PStr ` {nm \<in> set ns. kept_name nm})"
proof (intro impI conjI)
  assume d: "detect_names env txt = Inr ns" and e: "extract_characters env txt = Inr cs"
  show n: "character_names cs = map PStr (filter kept_name (set_order env ns))"
    using d e by (rule characters_names)
  assume o: "distinct (set_order env ns) \<and> set (set_order env ns) = set ns"
  show "distinct (character_names cs)"
    unfolding n using o by (simp add: distinct_map inj_on_def)
  show "set (character_names cs) = PStr ` {nm \<in> set ns. kept_name nm}"
    unfolding n using o by auto
qed

theorem characters_in_set_order_witness:
  "detect_names env_local two_names_text = Inr [''Bob'', ''Alice'']
   \<and> distinct (set_order env_local [''Bob'', ''Alice''])
   \<and> set (set_order env_local [''Bob'', ''Alice'']) = set [''Bob'', ''Alice'']
   \<and> (\<exists>cs. extract_characters env_local two_names_text = Inr cs
         \<and> character_names cs = [PStr ''Alice'', PStr ''Bob'']
         \<and> distinct (character_names cs))"
proof -
  obtain cs where cs: "extract_characters env_local two_names_text = Inr cs"
    using two_names_characters by blast
  have o: "distinct (set_order env_local [''Bob'', ''Alice''])
      \<and> set (set_order env_local [''Bob'', ''Alice'']) = set [''Bob'', ''Alice'']"
    by (auto simp: env_local_def)
  from characters_in_set_order [of env_local two_names_text "[''Bob'', ''Alice'']" cs]
    two_names_detected cs o two_names_kept
  have "character_names cs = [PStr ''Alice'', PStr ''Bob''] \<and> distinct (character_names cs)"
    by simp
  with cs o two_names_detected show ?thesis by blast
qed

theorem characters_order_counterexample:
  "detect_names env_local two_names_text = Inr [''Bob'', ''Alice'']
   \<and> map_sum id character_names (extract_characters env_local two_names_text) =
       Inr [PStr ''Alice'', PStr ''Bob'']"
  using two_names_detected two_names_characters by auto

subsection \<open>Dependence on the processor's resources\<close>

lemma description_cong:
  "re_dynamic e1 = re_dynamic e2 \<Longrightarrow>
   extract_character_description e1 txt nm = extract_character_description e2 txt nm"
  by (simp add: extract_character_description_def)

lemma emotion_found_cong:
  "re_dynamic e1 = re_dynamic e2 \<Longrightarrow> emotion_found e1 txt nm = emotion_found e2 txt nm"
  by (rule ext) (simp add: emotion_found_def)

lemma emotions_cong:
  "re_dynamic e1 = re_dynamic e2 \<Longrightarrow>
   extract_character_emotions e1 txt nm = extract_character_emotions e2 txt nm"
  by (simp add: extract_character_emotions_def emotion_found_cong [of e1 e2])

lemma actions_cong:
  "re_dynamic e1 = re_dynamic e2 \<Longrightarrow>
   extract_character_actions e1 txt nm = extract_character_actions e2 txt nm"
  by (simp add: extract_character_actions_def)

lemma build_character_cong:
  assumes "re_dynamic e1 = re_dynamic e2"
  shows "build_character e1 txt = build_character e2 txt"
proof
  fix nm
  show "build_character e1 txt nm = build_character e2 txt nm"
    unfolding build_character_def description_cong [OF assms] emotions_cong [OF assms]
      actions_cong [OF assms] ..
qed

lemma characters_cong:
  assumes "ner_pipeline e1 = ner_pipeline e2" and "set_order e1 = set_order e2"
    and "re_dynamic e1 = re_dynamic e2"
  shows "extract_characters e1 txt = extract_characters e2 txt"
proof -
  have d: "detect_names e1 txt = detect_names e2 txt"
    using assms(1) by (simp add: detect_names_def)
  show ?thesis
    unfolding extract_characters_def d assms(2) build_character_cong [OF assms(3)] ..
qed

lemma local_cong:
  assumes "ner_pipeline e1 = ner_pipeline e2" and "set_order e1 = set_order e2"
    and "re_dynamic e1 = re_dynamic e2"
  shows "process_with_local_nlp e1 prompt = process_with_local_nlp e2 prompt"
  by (simp add: process_with_local_nlp_def characters_cong [OF assms])

subsection \<open>Description of the local tier\<close>

text \<open>
  C10. In the local tier the description is the prompt itself when the prompt has at most
  200 characters, and otherwise the first 200 characters of the prompt followed by
  \<open>...\<close>, which has length 203.
\<close>

theorem local_description_truncated:
  "process_with_local_nlp env prompt = Inr scene \<longrightarrow>
     (length prompt \<le> 200 \<longrightarrow> description scene = PStr prompt)
     \<and> (200 < length prompt \<longrightarrow>
          description scene = PStr (take 200 prompt @ ''...'')
          \<and> length (take 200 prompt @ ''...'') = 203)"
  by (auto simp: local_scene)

lemma long_characters: "extract_characters env_local long_text = Inr []"
  by code_simp

theorem local_description_truncated_witness:
  "200 < length long_text
   \<and> (\<exists>scene. process_with_local_nlp env_local long_text = Inr scene
         \<and> description scene = PStr (replicate 200 (CHR ''x'') @ ''...''))
   \<and> length ''Hello'' \<le> 200
   \<and> (\<exists>scene. process_with_local_nlp env_local ''Hello'' = Inr scene
         \<and> description scene = PStr ''Hello'')"
proof -
  have l: "200 < length long_text" and t: "take 200 long_text = replicate 200 (CHR ''x'')"
    by (simp_all add: long_text_def)
  obtain scene where s: "process_with_local_nlp env_local long_text = Inr scene"
    by (simp add: process_with_local_nlp_def long_characters Let_def)
  obtain scene' where s': "process_with_local_nlp env_local ''Hello'' = Inr scene'"
    by (simp add: process_with_local_nlp_def hello_characters Let_def)
  from local_description_truncated [of env_local long_text scene] s l t
  have "description scene = PStr (replicate 200 (CHR ''x'') @ ''...'')"
    by simp
  moreover from local_description_truncated [of env_local "''Hello''" scene'] s'
  have "description scene' = PStr ''Hello''"
    by simp
  ultimately show ?thesis
    using l s s' by auto
qed

subsection \<open>Names found by the regex\<close>

lemma star_result:
  "run ic (R (Star P) # k) (M pc n s gs) = Some st \<Longrightarrow>
   \<exists>j pc'. j \<le> length s \<and> list_all P (take j s)
      \<and> run ic k (M pc' (n + j) (drop j s) gs) = Some st"
proof (induction s arbitrary: pc n)
  case Nil
  then show ?case by auto
next
  case (Cons c cs)
  show ?case
  proof (cases "P c \<and> run ic (R (Star P) # k) (M (Some c) (Suc n) cs gs) = Some st")
    case True
    with Cons.IH [of "Some c" "Suc n"] obtain j pc' where
      "j \<le> length cs" "list_all P (take j cs)"
      "run ic k (M pc' (Suc n + j) (drop j cs) gs) = Some st"
      by blast
    then have "Suc j \<le> length (c # cs) \<and> list_all P (take (Suc j) (c # cs))
        \<and> run ic k (M pc' (n + Suc j) (drop (Suc j) (c # cs)) gs) = Some st"
      using True by simp
    then show ?thesis by blast
  next
    case False
    with Cons.prems have "run ic k (M pc n (c # cs) gs) = Some st"
      by (auto split: if_splits option.splits)
    then have "0 \<le> length (c # cs) \<and> list_all P (take 0 (c # cs))
        \<and> run ic k (M pc (n + 0) (drop 0 (c # cs)) gs) = Some st"
      by simp
    then show ?thesis by blast
  qed
qed

lemma cls_step:
  "run ic (R (Cls P) # k) (M pc n s gs) = Some st \<Longrightarrow>
   \<exists>c cs. s = c # cs \<and> P c \<and> run ic k (M (Some c) (Suc n) cs gs) = Some st"
  by (cases s) (auto split: if_splits)

lemma ahead_groups:
  assumes "run ic [R (Star P), R (Cls Q)] (M pc n s gs) = Some (M pc' n' s' gs')"
  shows "gs' = gs"
proof -
  from star_result [OF assms] obtain j pc'' where
    "run ic [R (Cls Q)] (M pc'' (n + j) (drop j s) gs) = Some (M pc' n' s' gs')"
    by blast
  from cls_step [OF this] show ?thesis by auto
qed

lemma name_match_letters:
  assumes "run False (top_frames name_pattern adv n) (M pc n s []) = Some (M pc' n' s' gs)"
  shows "list_all letter (group gs 1)"
proof -
  define rest where "rest = [Close 1 n s,
      R (Ahead (Seq (Star py_isspace) (Cls (one_of [CHR '':'', dquote, dquote])))),
      Close 0 n s] @ (if adv then [Advance n] else [])"
  from assms have "run False (R (Cls upper_AZ) # R (Seq (Cls lower_az) (Star lower_az)) # rest)
      (M pc n s []) = Some (M pc' n' s' gs)"
    by (auto simp: top_frames_def name_pattern_def plus_def rest_def split: if_splits)
  from cls_step [OF this] obtain c0 s1 where s: "s = c0 # s1" and u: "upper_AZ c0"
    and r1: "run False (R (Seq (Cls lower_az) (Star lower_az)) # rest)
        (M (Some c0) (Suc n) s1 []) = Some (M pc' n' s' gs)"
    by blast
  from r1 have "run False (R (Cls lower_az) # R (Star lower_az) # rest)
      (M (Some c0) (Suc n) s1 []) = Some (M pc' n' s' gs)"
    by simp
  from cls_step [OF this] obtain c1 s2 where s1: "s1 = c1 # s2" and l: "lower_az c1"
    and r2: "run False (R (Star lower_az) # rest) (M (Some c1) (Suc (Suc n)) s2 []) =
      Some (M pc' n' s' gs)"
    by blast
  from star_result [OF r2] obtain j pc'' where j: "list_all lower_az (take j s2)"
    and r: "run False rest (M pc'' (Suc (Suc n) + j) (drop j s2) []) = Some (M pc' n' s' gs)"
    by blast
  from r have "group gs 1 = c0 # c1 # take j s2"
    unfolding rest_def
    by (auto simp: s s1 group_def split: option.splits mstate.splits if_splits
        dest!: ahead_groups)
  with u l j show ?thesis
    by (auto simp: letter_def list_all_iff)
qed

lemma letter_plain: "list_all letter w \<Longrightarrow> re_plain w"
  by (auto simp: letter_def re_plain_def list_all_iff upper_AZ_def lower_az_def
      code_def backslash_def)

lemma search_from_run:
  "search_from ic r adv pc n s = Some st \<Longrightarrow>
   \<exists>adv' pc' n' s'. run ic (top_frames r adv' n') (M pc' n' s' []) = Some st"
proof (induction s arbitrary: adv pc n)
  case Nil
  then show ?case by auto
next
  case (Cons c cs)
  show ?case
  proof (cases "run ic (top_frames r adv n) (M pc n (c # cs) [])")
    case None
    with Cons.prems have "search_from ic r False (Some c) (Suc n) cs = Some st"
      by simp
    then show ?thesis by (rule Cons.IH)
  next
    case (Some a)
    with Cons.prems have "run ic (top_frames r adv n) (M pc n (c # cs) []) = Some st"
      by simp
    then show ?thesis by blast
  qed
qed

lemma finditer_from_search:
  "m \<in> set (finditer_from ic r adv pc n s) \<Longrightarrow>
   \<exists>adv' pc' n' s' pc'' n'' s''. search_from ic r adv' pc' n' s' = Some (M pc'' n'' s'' m)"
proof (induction ic r adv pc n s rule: finditer_from.induct)
  case (1 ic r adv pc n s)
  show ?case
  proof (cases "search_from ic r adv pc n s")
    case None
    with "1.prems" show ?thesis by (simp add: finditer_from.simps)
  next
    case (Some st)
    obtain pc1 n1 s1 gs where st: "st = M pc1 n1 s1 gs" by (cases st)
    from "1.prems" Some st consider "m = gs"
      | "n < n1 \<and> s \<noteq> []"
        "m \<in> set (finditer_from ic r (group gs 0 = []) pc1 n1 (drop (n1 - n) s))"
      | "\<not> (n < n1 \<and> s \<noteq> [])" "\<not> adv" "m \<in> set (finditer_from ic r True pc n s)"
      by (subst (asm) finditer_from.simps) (auto split: if_splits)
    then show ?thesis
    proof cases
      case 1
      with Some st show ?thesis by blast
    next
      case 2
      with "1.IH"(1) [OF Some st] show ?thesis
        by blast
    next
      case 3
      with "1.IH"(2) [OF Some st] show ?thesis
        by blast
    qed
  qed
qed

text \<open>
  Without an NER model every detected name is an upper-case letter followed by lower-case
  letters, so it holds no regex metacharacter.
\<close>

lemma detected_names_plain:
  assumes "ner_pipeline env = None" and "detect_names env txt = Inr ns" and "nm \<in> set ns"
  shows "re_plain nm"
proof -
  from assms obtain m where m: "m \<in> set (finditer_from False name_pattern False None 0 txt)"
    and nm: "nm = group m 1"
    by (auto simp: detect_names_def re_finditer_def)
  from finditer_from_search [OF m] obtain adv pc n s pc' n' s' where
    f: "search_from False name_pattern adv pc n s = Some (M pc' n' s' m)"
    by blast
  from search_from_run [OF f] obtain adv' pc'' n'' s'' where
    "run False (top_frames name_pattern adv' n'') (M pc'' n'' s'' []) = Some (M pc' n' s' m)"
    by blast
  then have "list_all letter (group m 1)"
    by (rule name_match_letters)
  then show ?thesis
    unfolding nm by (rule letter_plain)
qed

subsection \<open>Totality and well-formedness\<close>

lemma str_list_wf: "is_str_list (PList (map PStr xs))"
  by (simp add: is_str_list_def is_str_def list_all_iff)

lemma local_line_wf: "well_formed_line (local_line speaker quote)"
  by (simp add: well_formed_line_def local_line_def is_str_def is_number_def str_list_wf)

lemma dialogue_wf: "list_all well_formed_line (extract_dialogue txt)"
  by (auto simp: extract_dialogue_def lines1_def lines2_def lines3_def Let_def list_all_iff
      local_line_wf)

lemma fallback_wf:
  assumes "process_with_fallback prompt = Inr scene"
  shows "well_formed scene"
proof -
  have "list_all well_formed_line (map (\<lambda>(i, quote). fallback_line i quote) xs)" for xs
    by (auto simp: list_all_iff well_formed_line_def fallback_line_def is_str_def is_number_def
        is_str_list_def)
  with assms show ?thesis
    by (auto simp: process_with_fallback_def Let_def well_formed_def well_formed_character_def
        is_str_def is_str_list_def duration_in_range_def)
qed

lemma build_character_wf:
  assumes "re_plain nm" and "build_character env txt nm = Inr c"
  shows "well_formed_character c"
proof -
  from assms(2) obtain d es acts where
    acts: "extract_character_actions env txt nm = Inr acts"
    and c: "c = \<lparr>name = PStr nm, char_description = PStr d, voice_characteristics = PStr [],
               emotions = PList (map PStr es), char_actions = PList acts\<rparr>"
    by (auto simp: build_character_def split: sum.splits)
  from assms(1) acts have
    "acts = map PStr (map (\<lambda>m. group m 1) (re_finditer True (action_pattern nm) txt))"
    by (auto simp: extract_character_actions_def comp_def)
  then have "is_str_list (PList acts)"
    by (simp only: str_list_wf)
  with c show ?thesis
    by (simp add: well_formed_character_def is_str_def str_list_wf)
qed

lemma map_err_all:
  "map_err f xs = Inr ys \<Longrightarrow> \<forall>x \<in> set xs. \<forall>y. f x = Inr y \<longrightarrow> Q y \<Longrightarrow> list_all Q ys"
  by (induction xs arbitrary: ys) (auto split: sum.splits)

lemma local_wf:
  assumes l: "process_with_local_nlp env prompt = Inr scene"
    and d: "detect_names env prompt = Inr ns"
    and p: "\<forall>nm \<in> set (set_order env ns). re_plain nm"
  shows "well_formed scene"
proof -
  from l have f: "description scene =
        PStr (if length prompt > 200 then take 200 prompt @ ''...'' else prompt)"
    "dialogue scene = extract_dialogue prompt"
    "environment scene = PStr (extract_environment prompt)"
    "mood scene = PStr (extract_mood prompt)"
    "duration_estimate scene = PInt (estimate_duration prompt (extract_dialogue prompt))"
    "extract_characters env prompt = Inr (characters scene)"
    by (simp_all add: local_scene)
  from l have a: "actions scene = PList (map PStr (extract_actions prompt))"
    by (auto simp: process_with_local_nlp_def Let_def split: sum.splits)
  from f(6) d have "map_err (build_character env prompt)
      (filter (\<lambda>nm. py_lower nm \<notin> set false_positives) (set_order env ns)) =
      Inr (characters scene)"
    by (simp add: extract_characters_def Let_def)
  moreover from p have "\<forall>nm \<in> set (filter (\<lambda>nm. py_lower nm \<notin> set false_positives)
        (set_order env ns)). \<forall>c. build_character env prompt nm = Inr c \<longrightarrow> well_formed_character c"
    using build_character_wf by auto
  ultimately have "list_all well_formed_character (characters scene)"
    by (rule map_err_all)
  then show ?thesis
    using f(1-5) a dialogue_wf [of prompt]
      estimate_duration_bounds [of prompt "extract_dialogue prompt"]
    by (simp add: well_formed_def is_str_def str_list_wf duration_in_range_def)
qed

lemma local_returns_plain:
  assumes d: "detect_names env prompt = Inr ns"
    and p: "\<forall>nm \<in> set (set_order env ns). re_plain nm"
  shows "\<exists>scene. process_with_local_nlp env prompt = Inr scene"
proof -
  from p have "\<exists>cs. map_err (build_character env prompt)
      (filter (\<lambda>nm. py_lower nm \<notin> set false_positives) (set_order env ns)) = Inr cs"
    by (intro map_err_total build_character_plain) simp
  with d obtain cs where "extract_characters env prompt = Inr cs"
    by (auto simp: extract_characters_def Let_def)
  then show ?thesis
    by (simp add: process_with_local_nlp_def Let_def)
qed

lemma local_without_ner:
  assumes "ner_pipeline env = None" and "set_contract env"
  shows "\<exists>scene. process_with_local_nlp env prompt = Inr scene \<and> well_formed scene"
proof -
  from assms(1) obtain ns where d: "detect_names env prompt = Inr ns"
    by (simp add: detect_names_def)
  from assms(2) have "set (set_order env ns) = set ns"
    by (simp add: set_contract_def)
  with detected_names_plain [OF assms(1) d] have p: "\<forall>nm \<in> set (set_order env ns). re_plain nm"
    by simp
  from local_returns_plain [OF d p] obtain scene where
    "process_with_local_nlp env prompt = Inr scene" ..
  with local_wf [OF _ d p] show ?thesis by blast
qed

lemma bad_remote:
  "process_natural_language_prompt env_remote_bad ''Hello'' =
     Inr \<lparr>description = PNone, characters = [], dialogue = [], actions = PList [],
          environment = PStr [], mood = PStr ''neutral'', duration_estimate = PStr ''soon''\<rparr>"
  by (simp add: process_natural_language_prompt_def process_with_deepseek_def
      remote_attempt_def env_remote_bad_def env_local_def reply_bad_data_def
      convert_to_parsed_scene_def convert_items_def field_or_def)

text \<open>
  C1, as the code has it. For every prompt the top-level operation returns a scene and
  never raises: a failure of the remote attempt hands over to the local tier, an exception
  of the local tier hands over to the fallback tier, and the fallback tier returns on
  every input, the empty string included. The scene is well-formed (every field of its
  declared type, 5 to 30 seconds) when it comes from the fallback tier, and when it comes
  from the local tier and no detected name holds a regex metacharacter; without an NER
  model the local tier always returns, and returns such a scene. A scene from a
  successful remote attempt holds the reply's values unchecked and need not be
  well-formed.
\<close>

theorem extract_total_well_formed:
  "(\<exists>scene. process_natural_language_prompt env prompt = Inr scene)
   \<and> (client env = Some cl \<longrightarrow> remote_attempt env cl prompt = Inl e \<longrightarrow>
        process_natural_language_prompt env prompt =
          (case process_with_local_nlp env prompt of
             Inr scene \<Rightarrow> Inr scene
           | Inl e' \<Rightarrow> process_with_fallback prompt))
   \<and> (client env = None \<longrightarrow>
        process_natural_language_prompt env prompt =
          (case process_with_local_nlp env prompt of
             Inr scene \<Rightarrow> Inr scene
           | Inl e' \<Rightarrow> process_with_fallback prompt))
   \<and> (\<exists>scene. process_with_fallback prompt = Inr scene \<and> well_formed scene)
   \<and> (\<exists>scene. process_with_fallback [] = Inr scene \<and> well_formed scene)
   \<and> (ner_pipeline env = None \<longrightarrow> set_contract env \<longrightarrow>
        (\<exists>scene. process_with_local_nlp env prompt = Inr scene \<and> well_formed scene))
   \<and> ((client env = None \<or> (\<exists>cl e. client env = Some cl \<and> remote_attempt env cl prompt = Inl e)) \<longrightarrow>
        (\<forall>ns. detect_names env prompt = Inr ns \<longrightarrow> (\<forall>nm \<in> set (set_order env ns). re_plain nm)) \<longrightarrow>
        process_natural_language_prompt env prompt = Inr scene' \<longrightarrow> well_formed scene')"
proof (intro conjI impI)
  show "\<exists>scene. process_natural_language_prompt env prompt = Inr scene"
    by (rule process_returns)
next
  assume "client env = Some cl" and "remote_attempt env cl prompt = Inl e"
  then show "process_natural_language_prompt env prompt =
      (case process_with_local_nlp env prompt of
         Inr scene \<Rightarrow> Inr scene
       | Inl e' \<Rightarrow> process_with_fallback prompt)"
    by (simp add: process_natural_language_prompt_def process_with_deepseek_def)
next
  assume "client env = None"
  then show "process_natural_language_prompt env prompt =
      (case process_with_local_nlp env prompt of
         Inr scene \<Rightarrow> Inr scene
       | Inl e' \<Rightarrow> process_with_fallback prompt)"
    by (simp add: process_natural_language_prompt_def)
next
  show "\<exists>scene. process_with_fallback prompt = Inr scene \<and> well_formed scene"
    using fallback_returns [of prompt] fallback_wf by blast
next
  show "\<exists>scene. process_with_fallback [] = Inr scene \<and> well_formed scene"
    using fallback_returns [of "[]"] fallback_wf by blast
next
  assume "ner_pipeline env = None" and "set_contract env"
  then show "\<exists>scene. process_with_local_nlp env prompt = Inr scene \<and> well_formed scene"
    by (rule local_without_ner)
next
  assume tier: "client env = None
      \<or> (\<exists>cl e. client env = Some cl \<and> remote_attempt env cl prompt = Inl e)"
    and names: "\<forall>ns. detect_names env prompt = Inr ns \<longrightarrow>
      (\<forall>nm \<in> set (set_order env ns). re_plain nm)"
    and res: "process_natural_language_prompt env prompt = Inr scene'"
  from tier res have r: "(case process_with_local_nlp env prompt of
              Inr sc \<Rightarrow> Inr sc
            | Inl e \<Rightarrow> process_with_fallback prompt) = Inr scene'"
    by (auto simp: process_natural_language_prompt_def process_with_deepseek_def)
  show "well_formed scene'"
  proof (cases "process_with_local_nlp env prompt")
    case (Inl e)
    with r have "process_with_fallback prompt = Inr scene'" by simp
    then show ?thesis by (rule fallback_wf)
  next
    case (Inr sc)
    with r have l: "process_with_local_nlp env prompt = Inr scene'" by simp
    then obtain ns where d: "detect_names env prompt = Inr ns"
      by (auto simp: process_with_local_nlp_def extract_characters_def split: sum.splits)
    with names have "\<forall>nm \<in> set (set_order env ns). re_plain nm" by blast
    with l d show ?thesis by (rule local_wf)
  qed
qed

lemma env_local_contract: "set_contract env_local \<and> set_contract env_other_seed"
  by (simp add: set_contract_def env_local_def env_other_seed_def)

theorem extract_total_well_formed_witness:
  "client env_all_down = Some down_client
   \<and> remote_attempt env_all_down down_client ''Hello'' = Inl (Raised ''timeout'')
   \<and> process_with_local_nlp env_all_down ''Hello'' = Inl (Raised ''model error'')
   \<and> (\<exists>scene. process_natural_language_prompt env_all_down ''Hello'' = Inr scene
         \<and> process_with_fallback ''Hello'' = Inr scene \<and> well_formed scene)
   \<and> client env_local = None \<and> ner_pipeline env_local = None \<and> set_contract env_local
   \<and> detect_names env_local two_names_text = Inr [''Bob'', ''Alice'']
   \<and> (\<exists>scene. process_natural_language_prompt env_local two_names_text = Inr scene
         \<and> process_with_local_nlp env_local two_names_text = Inr scene
         \<and> well_formed scene)"
proof -
  have c: "client env_all_down = Some down_client"
    by (simp add: env_all_down_def)
  have r: "remote_attempt env_all_down down_client ''Hello'' = Inl (Raised ''timeout'')"
    by (simp add: remote_attempt_def down_client_def)
  have l: "process_with_local_nlp env_all_down ''Hello'' = Inl (Raised ''model error'')"
    by (simp add: process_with_local_nlp_def extract_characters_def detect_names_def
        env_all_down_def down_ner_def)
  have n: "\<forall>ns. detect_names env_all_down ''Hello'' = Inr ns \<longrightarrow>
      (\<forall>nm \<in> set (set_order env_all_down ns). re_plain nm)"
    by (simp add: detect_names_def env_all_down_def down_ner_def)
  obtain scene where s: "process_natural_language_prompt env_all_down ''Hello'' = Inr scene"
    using process_returns by blast
  note t = extract_total_well_formed [of env_all_down "''Hello''" down_client
      "Raised ''timeout''" scene]
  from t c r l s have f: "process_with_fallback ''Hello'' = Inr scene"
    by simp
  from t c r n s have w: "well_formed scene"
    by auto
  have c': "client env_local = None" and n': "ner_pipeline env_local = None"
    by (simp_all add: env_local_def)
  have k: "set_contract env_local"
    using env_local_contract by simp
  note t' = extract_total_well_formed [of env_local two_names_text]
  from t' n' k have "\<exists>scene. process_with_local_nlp env_local two_names_text = Inr scene
      \<and> well_formed scene"
    by simp
  then obtain scene' where
    l': "process_with_local_nlp env_local two_names_text = Inr scene'" and w': "well_formed scene'"
    by blast
  from t' c' l' have s': "process_natural_language_prompt env_local two_names_text = Inr scene'"
    by simp
  from c r l s f w c' n' k two_names_detected l' w' s' show ?thesis
    by blast
qed

theorem extract_ill_formed_counterexample:
  "map_sum id description (process_natural_language_prompt env_remote_bad ''Hello'') = Inr PNone
   \<and> map_sum id duration_estimate (process_natural_language_prompt env_remote_bad ''Hello'') =
       Inr (PStr ''soon'')
   \<and> map_sum id well_formed (process_natural_language_prompt env_remote_bad ''Hello'') =
       Inr False"
  by (simp add: bad_remote well_formed_def is_str_def)

subsection \<open>Determinism without remote configuration\<close>

lemma map_err_values:
  "map_err f xs = Inr ys \<Longrightarrow> ys = map (\<lambda>x. projr (f x)) xs"
  by (induction xs arbitrary: ys) (auto split: sum.splits)

lemma map_err_Inr_iff:
  "(\<exists>ys. map_err f xs = Inr ys) \<longleftrightarrow> (\<forall>x \<in> set xs. \<exists>y. f x = Inr y)"
  by (induction xs) (auto split: sum.splits)

lemma kept_names_perm:
  assumes "set_contract e1" and "set_contract e2"
  shows "mset (filter P (set_order e1 ns)) = mset (filter P (set_order e2 ns))"
proof -
  from assms have "distinct (set_order e1 ns)" "distinct (set_order e2 ns)"
    "set (set_order e1 ns) = set (set_order e2 ns)"
    by (simp_all add: set_contract_def)
  then have "mset (set_order e1 ns) = mset (set_order e2 ns)"
    by (simp add: set_eq_iff_mset_eq_distinct)
  then show ?thesis
    by (metis mset_filter)
qed

lemma characters_perm:
  assumes n: "ner_pipeline e1 = ner_pipeline e2" and d: "re_dynamic e1 = re_dynamic e2"
    and c1: "set_contract e1" and c2: "set_contract e2"
  shows "((\<exists>e. extract_characters e1 txt = Inl e) \<and> (\<exists>e. extract_characters e2 txt = Inl e))
      \<or> (\<exists>cs1 cs2. extract_characters e1 txt = Inr cs1 \<and> extract_characters e2 txt = Inr cs2
            \<and> mset cs1 = mset cs2)"
proof (cases "detect_names e2 txt")
  case (Inl e)
  moreover have dn: "detect_names e1 txt = detect_names e2 txt"
    using n by (simp add: detect_names_def)
  ultimately show ?thesis
    by (simp add: extract_characters_def)
next
  case (Inr ns)
  have dn: "detect_names e1 txt = detect_names e2 txt"
    using n by (simp add: detect_names_def)
  define l1 where "l1 = filter (\<lambda>nm. py_lower nm \<notin> set false_positives) (set_order e1 ns)"
  define l2 where "l2 = filter (\<lambda>nm. py_lower nm \<notin> set false_positives) (set_order e2 ns)"
  define f where "f = build_character e2 txt"
  have f1: "build_character e1 txt = f"
    unfolding f_def by (rule build_character_cong [OF d])
  have x1: "extract_characters e1 txt = map_err f l1"
    by (simp add: extract_characters_def dn Inr Let_def l1_def f1)
  have x2: "extract_characters e2 txt = map_err f l2"
    by (simp add: extract_characters_def Inr Let_def l2_def f_def)
  have m: "mset l1 = mset l2"
    unfolding l1_def l2_def by (rule kept_names_perm [OF c1 c2])
  then have s: "set l1 = set l2"
    by (rule mset_eq_setD)
  show ?thesis
  proof (cases "\<forall>x \<in> set l1. \<exists>y. f x = Inr y")
    case True
    then obtain cs1 where cs1: "map_err f l1 = Inr cs1"
      using map_err_Inr_iff [of f l1] by blast
    from True s obtain cs2 where cs2: "map_err f l2 = Inr cs2"
      using map_err_Inr_iff [of f l2] by auto
    from map_err_values [OF cs1] map_err_values [OF cs2] m
    have "mset cs1 = mset cs2"
      by (metis mset_map)
    with cs1 cs2 x1 x2 show ?thesis by simp
  next
    case False
    then have "\<not> (\<exists>ys. map_err f l1 = Inr ys)"
      using map_err_Inr_iff [of f l1] by blast
    moreover from False s have "\<not> (\<exists>ys. map_err f l2 = Inr ys)"
      using map_err_Inr_iff [of f l2] by auto
    ultimately have "(\<exists>e. map_err f l1 = Inl e) \<and> (\<exists>e. map_err f l2 = Inl e)"
      by (metis sum.exhaust)
    with x1 x2 show ?thesis by simp
  qed
qed

lemma local_fields_from_characters:
  "process_with_local_nlp env prompt =
     (case extract_characters env prompt of
        Inl e \<Rightarrow> Inl e
      | Inr cs \<Rightarrow>
          Inr \<lparr>description =
                 PStr (if length prompt > 200 then take 200 prompt @ ''...'' else prompt),
               characters = cs,
               dialogue = extract_dialogue prompt,
               actions = PList (map PStr (extract_actions prompt)),
               environment = PStr (extract_environment prompt),
               mood = PStr (extract_mood prompt),
               duration_estimate = PInt (estimate_duration prompt (extract_dialogue prompt))\<rparr>)"
  unfolding process_with_local_nlp_def Let_def by (rule refl)

text \<open>
  C9, as the code has it. With no remote configuration, two calls on the same prompt
  return scenes that agree in every field except the order of the characters: description,
  dialogue, actions, environment, mood and duration are identical and the characters lists
  hold the same records, but their order is the order in which \<^verbatim>\<open>list(set(...))\<close>
  enumerates the names, which follows the string hashing of the process. Where the two
  calls see the same enumeration order, as two calls in one process do, the scenes are
  identical. The tiers consult nothing else that could differ: the NER model and the
  regex engine are read, not changed.
\<close>

theorem local_path_up_to_character_order:
  assumes "client e1 = None" and "client e2 = None"
    and "ner_pipeline e1 = ner_pipeline e2" and "re_dynamic e1 = re_dynamic e2"
    and "set_contract e1" and "set_contract e2"
  shows "\<exists>s1 s2. process_natural_language_prompt e1 prompt = Inr s1
      \<and> process_natural_language_prompt e2 prompt = Inr s2
      \<and> s1\<lparr>characters := characters s2\<rparr> = s2
      \<and> mset (characters s1) = mset (characters s2)
      \<and> (set_order e1 = set_order e2 \<longrightarrow> s1 = s2)"
proof -
  from characters_perm [OF assms(3-6), of prompt]
  consider (fail) e e' where "extract_characters e1 prompt = Inl e"
      "extract_characters e2 prompt = Inl e'"
    | (ok) cs1 cs2 where "extract_characters e1 prompt = Inr cs1"
      "extract_characters e2 prompt = Inr cs2" "mset cs1 = mset cs2"
    by blast
  then show ?thesis
  proof cases
    case fail
    obtain s where s: "process_with_fallback prompt = Inr s"
      using fallback_returns by blast
    from fail assms(1,2) s have "process_natural_language_prompt e1 prompt = Inr s"
      "process_natural_language_prompt e2 prompt = Inr s"
      by (simp_all add: process_natural_language_prompt_def local_fields_from_characters)
    then show ?thesis by simp
  next
    case ok
    define base where "base = \<lparr>description =
                 PStr (if length prompt > 200 then take 200 prompt @ ''...'' else prompt),
               characters = cs1,
               dialogue = extract_dialogue prompt,
               actions = PList (map PStr (extract_actions prompt)),
               environment = PStr (extract_environment prompt),
               mood = PStr (extract_mood prompt),
               duration_estimate = PInt (estimate_duration prompt (extract_dialogue prompt))\<rparr>"
    from ok assms(1,2) have p1: "process_natural_language_prompt e1 prompt = Inr base"
      and p2: "process_natural_language_prompt e2 prompt = Inr (base\<lparr>characters := cs2\<rparr>)"
      by (simp_all add: process_natural_language_prompt_def local_fields_from_characters
          base_def)
    have "set_order e1 = set_order e2 \<longrightarrow> cs1 = cs2"
    proof
      assume o: "set_order e1 = set_order e2"
      from assms(3) o assms(4) have "extract_characters e1 prompt = extract_characters e2 prompt"
        by (rule characters_cong)
      with ok show "cs1 = cs2" by simp
    qed
    with p1 p2 ok(3) show ?thesis
      by (auto simp: base_def)
  qed
qed

lemma other_seed_names:
  "filter kept_name (set_order env_other_seed [''Bob'', ''Alice'']) = [''Bob'', ''Alice'']"
  by code_simp

lemma two_names_scene:
  assumes "client env = None" and "ner_pipeline env = None" and "set_contract env"
  shows "\<exists>scene. process_natural_language_prompt env two_names_text = Inr scene
      \<and> scene_character_names scene =
          map PStr (filter kept_name (set_order env [''Bob'', ''Alice'']))"
proof -
  have d: "detect_names env two_names_text = Inr [''Bob'', ''Alice'']"
    using two_names_detected assms(2) by (simp add: detect_names_def env_local_def)
  from local_without_ner [OF assms(2,3)] obtain scene where
    l: "process_with_local_nlp env two_names_text = Inr scene" by blast
  then have "extract_characters env two_names_text = Inr (characters scene)"
    by (simp add: local_scene)
  from characters_names [OF d this]
  have "scene_character_names scene =
      map PStr (filter kept_name (set_order env [''Bob'', ''Alice'']))"
    by (simp add: scene_character_names_def character_names_def)
  moreover from l assms(1) have "process_natural_language_prompt env two_names_text = Inr scene"
    by (simp add: process_natural_language_prompt_def)
  ultimately show ?thesis by blast
qed

theorem local_path_up_to_character_order_witness:
  "client env_local = None \<and> client env_other_seed = None
   \<and> ner_pipeline env_local = ner_pipeline env_other_seed
   \<and> re_dynamic env_local = re_dynamic env_other_seed
   \<and> set_contract env_local \<and> set_contract env_other_seed
   \<and> set_order env_local [''Bob'', ''Alice''] \<noteq> set_order env_other_seed [''Bob'', ''Alice'']
   \<and> (\<exists>s1 s2. process_natural_language_prompt env_local two_names_text = Inr s1
         \<and> process_natural_language_prompt env_other_seed two_names_text = Inr s2
         \<and> s1\<lparr>characters := characters s2\<rparr> = s2
         \<and> mset (characters s1) = mset (characters s2))"
proof -
  have h: "client env_local = None" "client env_other_seed = None"
    "ner_pipeline env_local = ner_pipeline env_other_seed"
    "re_dynamic env_local = re_dynamic env_other_seed"
    by (simp_all add: env_other_seed_def env_local_def)
  have k: "set_contract env_local" "set_contract env_other_seed"
    using env_local_contract by simp_all
  have o: "set_order env_local [''Bob'', ''Alice''] \<noteq> set_order env_other_seed [''Bob'', ''Alice'']"
    by (simp add: env_other_seed_def env_local_def)
  from local_path_up_to_character_order [OF h k, of two_names_text]
  have "\<exists>s1 s2. process_natural_language_prompt env_local two_names_text = Inr s1
         \<and> process_natural_language_prompt env_other_seed two_names_text = Inr s2
         \<and> s1\<lparr>characters := characters s2\<rparr> = s2
         \<and> mset (characters s1) = mset (characters s2)"
    by blast
  with h k o show ?thesis by blast
qed

theorem two_runs_differ_counterexample:
  "client env_local = None \<and> client env_other_seed = None
   \<and> map_sum id scene_character_names
       (process_natural_language_prompt env_local two_names_text) =
         Inr [PStr ''Alice'', PStr ''Bob'']
   \<and> map_sum id scene_character_names
       (process_natural_language_prompt env_other_seed two_names_text) =
         Inr [PStr ''Bob'', PStr ''Alice'']
   \<and> process_natural_language_prompt env_local two_names_text \<noteq>
       process_natural_language_prompt env_other_seed two_names_text"
proof -
  have h: "client env_local = None" "client env_other_seed = None"
    "ner_pipeline env_local = None" "ner_pipeline env_other_seed = None"
    by (simp_all add: env_other_seed_def env_local_def)
  from two_names_scene [OF h(1) h(3)] env_local_contract two_names_kept
  have a: "map_sum id scene_character_names
       (process_natural_language_prompt env_local two_names_text) =
         Inr [PStr ''Alice'', PStr ''Bob'']"
    by auto
  from two_names_scene [OF h(2) h(4)] env_local_contract other_seed_names
  have b: "map_sum id scene_character_names
       (process_natural_language_prompt env_other_seed two_names_text) =
         Inr [PStr ''Bob'', PStr ''Alice'']"
    by auto
  from a b have "process_natural_language_prompt env_local two_names_text \<noteq>
       process_natural_language_prompt env_other_seed two_names_text"
    by auto
  with h a b show ?thesis by simp
qed

end
